theory Spec2Isabelle
  imports Main "HOL-Library.Sublist" "HOL-Library.Monad_Syntax"
begin

section \<open>JSON documents and the registry model (types/registry.ts)\<close>

text \<open>
  Values as \<^verbatim>\<open>JSON.parse\<close> and \<^verbatim>\<open>response.json()\<close> deliver them. An object is
  the list of its own keys with their values (keys are unique after parsing).
\<close>

datatype json =
    JNull
  | JBool bool
  | JNum int
  | JStr string
  | JArr "json list"
  | JObj "(string \<times> json) list"

text \<open>The exceptions the scripts throw or receive from the runtime.\<close>

datatype error =
    Error string
  | ZodError
  | SyntaxError
  | TypeError
  | FetchFailed
  | ExecError
  | FsError

record Component =
  c_id :: string
  c_name :: string
  c_type :: string
  c_path :: string
  c_description :: "string option"
  c_tags :: "string list option"
  c_dependencies :: "string list option"
  c_category :: string
  c_files :: "string list option"
  c_aliases :: "string list option"
  c_version :: "string option"

record Components =
  agents :: "Component list option"
  subagents :: "Component list option"
  commands :: "Component list option"
  tools :: "Component list option"
  plugins :: "Component list option"
  skills :: "Component list option"
  contexts :: "Component list option"
  config :: "Component list option"

record Registry =
  r_version :: string
  r_schema_version :: string
  r_repository :: string
  r_categories :: "(string \<times> string) list"
  r_components :: Components

datatype Profile = P_essential | P_standard | P_extended | P_specialized | P_all

subsection \<open>Zod schemas\<close>

text \<open>
  \<^verbatim>\<open>z.string()\<close> accepts a string only; \<^verbatim>\<open>.optional()\<close> accepts an absent key as
  well (and nothing else: \<^verbatim>\<open>null\<close> is refused); \<^verbatim>\<open>z.object\<close> accepts an object
  and drops the keys the schema does not name. Each parser returns \<open>None\<close> where Zod
  throws.
\<close>

fun z_string :: "json option \<Rightarrow> string option" where
  "z_string (Some (JStr s)) = Some s"
| "z_string _ = None"

fun z_optional :: "(json option \<Rightarrow> 'a option) \<Rightarrow> json option \<Rightarrow> 'a option option" where
  "z_optional p None = Some None"
| "z_optional p (Some j) = (case p (Some j) of None \<Rightarrow> None | Some v \<Rightarrow> Some (Some v))"

fun z_array :: "(json option \<Rightarrow> 'a option) \<Rightarrow> json option \<Rightarrow> 'a list option" where
  "z_array p (Some (JArr js)) = those (map (\<lambda>j. p (Some j)) js)"
| "z_array p _ = None"

fun z_record_string :: "json option \<Rightarrow> (string \<times> string) list option" where
  "z_record_string (Some (JObj kvs)) =
     those (map (\<lambda>(k, v). case z_string (Some v) of None \<Rightarrow> None | Some s \<Rightarrow> Some (k, s)) kvs)"
| "z_record_string _ = None"

fun ComponentSchema :: "json option \<Rightarrow> Component option" where
  "ComponentSchema (Some (JObj kvs)) = do {
     i \<leftarrow> z_string (map_of kvs ''id'');
     n \<leftarrow> z_string (map_of kvs ''name'');
     t \<leftarrow> z_string (map_of kvs ''type'');
     p \<leftarrow> z_string (map_of kvs ''path'');
     d \<leftarrow> z_optional z_string (map_of kvs ''description'');
     tg \<leftarrow> z_optional (z_array z_string) (map_of kvs ''tags'');
     dp \<leftarrow> z_optional (z_array z_string) (map_of kvs ''dependencies'');
     c \<leftarrow> z_string (map_of kvs ''category'');
     f \<leftarrow> z_optional (z_array z_string) (map_of kvs ''files'');
     a \<leftarrow> z_optional (z_array z_string) (map_of kvs ''aliases'');
     v \<leftarrow> z_optional z_string (map_of kvs ''version'');
     Some \<lparr> c_id = i, c_name = n, c_type = t, c_path = p, c_description = d, c_tags = tg,
            c_dependencies = dp, c_category = c, c_files = f, c_aliases = a, c_version = v \<rparr>
   }"
| "ComponentSchema _ = None"

fun ComponentsSchema :: "json option \<Rightarrow> Components option" where
  "ComponentsSchema (Some (JObj kvs)) = do {
     ag \<leftarrow> z_optional (z_array ComponentSchema) (map_of kvs ''agents'');
     sa \<leftarrow> z_optional (z_array ComponentSchema) (map_of kvs ''subagents'');
     co \<leftarrow> z_optional (z_array ComponentSchema) (map_of kvs ''commands'');
     tl \<leftarrow> z_optional (z_array ComponentSchema) (map_of kvs ''tools'');
     pl \<leftarrow> z_optional (z_array ComponentSchema) (map_of kvs ''plugins'');
     sk \<leftarrow> z_optional (z_array ComponentSchema) (map_of kvs ''skills'');
     cx \<leftarrow> z_optional (z_array ComponentSchema) (map_of kvs ''contexts'');
     cf \<leftarrow> z_optional (z_array ComponentSchema) (map_of kvs ''config'');
     Some \<lparr> agents = ag, subagents = sa, commands = co, tools = tl, plugins = pl,
            skills = sk, contexts = cx, config = cf \<rparr>
   }"
| "ComponentsSchema _ = None"

fun RegistrySchema :: "json \<Rightarrow> Registry option" where
  "RegistrySchema (JObj kvs) = do {
     v \<leftarrow> z_string (map_of kvs ''version'');
     sv \<leftarrow> z_string (map_of kvs ''schema_version'');
     rp \<leftarrow> z_string (map_of kvs ''repository'');
     cats \<leftarrow> z_record_string (map_of kvs ''categories'');
     cs \<leftarrow> ComponentsSchema (map_of kvs ''components'');
     Some \<lparr> r_version = v, r_schema_version = sv, r_repository = rp, r_categories = cats,
            r_components = cs \<rparr>
   }"
| "RegistrySchema _ = None"

section \<open>Filtering the registry (utils/registry-fetcher.ts)\<close>

definition or_empty :: "'a list option \<Rightarrow> 'a list" where
  "or_empty xs = (case xs of None \<Rightarrow> [] | Some ys \<Rightarrow> ys)"

definition profileCategories :: "(Profile \<times> string list) list" where
  "profileCategories =
     [(P_essential, [''essential'', ''core'']),
      (P_standard, [''essential'', ''core'', ''standard'']),
      (P_extended, [''essential'', ''core'', ''standard'', ''extended'']),
      (P_specialized, [''essential'', ''core'', ''standard'', ''extended'', ''specialized'']),
      (P_all, [])]"

definition filterContextByProfile :: "Registry \<Rightarrow> Profile \<Rightarrow> error + Component list" where
  "filterContextByProfile registry profile =
     (let ctxs = or_empty (contexts (r_components registry)) in
      if profile = P_all then Inr ctxs
      else case map_of profileCategories profile of
             None \<Rightarrow> Inl (Error ''Unknown profile'')
           | Some categories \<Rightarrow> Inr (filter (\<lambda>component. c_category component \<in> set categories) ctxs))"

definition filterContextByIds :: "Registry \<Rightarrow> string list \<Rightarrow> Component list" where
  "filterContextByIds registry componentIds =
     (let ctxs = or_empty (contexts (r_components registry)) in
      filter (\<lambda>component. c_id component \<in> set componentIds) ctxs)"

text \<open>
  \<^verbatim>\<open>String.prototype.split\<close> on a one-character separator, \<^verbatim>\<open>Array.prototype.join\<close>,
  and \<^verbatim>\<open>pop\<close> as \<open>butlast\<close> (a no-op on the empty array).
\<close>

fun split :: "char \<Rightarrow> string \<Rightarrow> string list" where
  "split sep [] = [[]]"
| "split sep (x # xs) =
     (if x = sep then [] # split sep xs
      else case split sep xs of [] \<Rightarrow> [[x]] | w # ws \<Rightarrow> (x # w) # ws)"

fun join :: "string \<Rightarrow> string list \<Rightarrow> string" where
  "join sep [] = []"
| "join sep [w] = w"
| "join sep (w # v # ws) = w @ sep @ join sep (v # ws)"

definition dirPath :: "Component \<Rightarrow> string" where
  "dirPath component = join ''/'' (butlast (split CHR ''/'' (c_path component)))"

text \<open>The \<^verbatim>\<open>Set\<close> keeps its elements in the order of their first insertion.\<close>

definition set_add :: "string list \<Rightarrow> string \<Rightarrow> string list" where
  "set_add paths p = (if p \<in> set paths then paths else paths @ [p])"

definition getUniquePaths :: "Component list \<Rightarrow> string list" where
  "getUniquePaths components =
     foldl (\<lambda>paths component.
              if dirPath component \<noteq> [] then set_add paths (dirPath component) else paths)
           [] components"


section \<open>The file system, the console and the outside world\<close>

text \<open>
  A path is the list of its components below the root; \<^verbatim>\<open>path.join\<close> and
  \<^verbatim>\<open>path.dirname\<close> act on the components (a trailing separator is not
  represented). A file holds either the serialisation of a JSON value or text that does
  not parse as JSON. Calls that change the file system or reach the network are recorded
  in \<open>calls\<close> in the order they are made, console lines in \<open>console\<close>.
  Permission and device errors of the file system are not modelled.
\<close>

type_synonym path = "string list"

datatype content = Json json | Raw string

datatype node = Dir | File content

datatype level = L_info | L_success | L_warning | L_error | L_header | L_plain

datatype part = Str string | Num nat | Flag bool | Js "json option"

datatype event =
    Fetch string
  | Git_clone string "string option" path
  | Git_sparse_set path "string list"
  | Git_rev_parse path
  | Cp path path
  | WriteFile path content
  | Rm path
  | Mkdir path
  | Mkdtemp path

record world =
  fsys :: "(path \<times> node) list"
  calls :: "event list"
  console :: "(level \<times> part list) list"

datatype http_result = Rejected | Response bool string "json option"

text \<open>
  What the scripts cannot determine themselves: the process environment, the answers of
  the network and of the git and cp commands, the clock, and the message texts of
  exceptions raised by the runtime.
\<close>

record env =
  CLAUDE_PLUGIN_ROOT :: "path option"
  cwd :: path
  homedir :: path
  tmpdir :: path
  tmp_name :: string
  git_available :: bool
  http_get :: "string \<Rightarrow> http_result"
  clone_ok :: bool
  clone_tree :: "(path \<times> node) list"
  sparse_ok :: "string list \<Rightarrow> bool"
  sparse_tree :: "string list \<Rightarrow> (path \<times> node) list"
  rev_parse_out :: "string option"
  cp_ok :: bool
  now :: string
  lib_message :: "error \<Rightarrow> string"

definition say :: "level \<Rightarrow> part list \<Rightarrow> world \<Rightarrow> world" where
  "say l ps w = w\<lparr>console := console w @ [(l, ps)]\<rparr>"

definition call :: "event \<Rightarrow> world \<Rightarrow> world" where
  "call e w = w\<lparr>calls := calls w @ [e]\<rparr>"

definition say_if :: "bool \<Rightarrow> level \<Rightarrow> part list \<Rightarrow> world \<Rightarrow> world" where
  "say_if b l ps w = (if b then say l ps w else w)"

definition thenE ::
  "(error + 'a) \<times> world \<Rightarrow> ('a \<Rightarrow> world \<Rightarrow> (error + 'b) \<times> world) \<Rightarrow> (error + 'b) \<times> world" where
  "thenE r f = (case r of (Inl e, w) \<Rightarrow> (Inl e, w) | (Inr a, w) \<Rightarrow> f a w)"

definition message :: "env \<Rightarrow> error \<Rightarrow> string" where
  "message en e = (case e of Error m \<Rightarrow> m | _ \<Rightarrow> lib_message en e)"

definition node_at :: "(path \<times> node) list \<Rightarrow> path \<Rightarrow> node option" where
  "node_at fs p = (if p = [] then Some Dir else map_of fs p)"

definition existsSync :: "world \<Rightarrow> path \<Rightarrow> bool" where
  "existsSync w p = (node_at (fsys w) p \<noteq> None)"

definition is_file :: "world \<Rightarrow> path \<Rightarrow> bool" where
  "is_file w p = (case node_at (fsys w) p of Some (File c) \<Rightarrow> True | _ \<Rightarrow> False)"

definition is_dir :: "world \<Rightarrow> path \<Rightarrow> bool" where
  "is_dir w p = (node_at (fsys w) p = Some Dir)"

definition overlay :: "(path \<times> node) list \<Rightarrow> (path \<times> node) list \<Rightarrow> (path \<times> node) list" where
  "overlay new fs = new @ filter (\<lambda>(p, n). map_of new p = None) fs"

definition rebase :: "path \<Rightarrow> (path \<times> node) list \<Rightarrow> (path \<times> node) list" where
  "rebase root tree = map (\<lambda>(p, n). (root @ p, n)) tree"

text \<open>\<^verbatim>\<open>rmSync(dir, { recursive: true, force: true })\<close> and \<^verbatim>\<open>rm -rf\<close>.\<close>

definition rmSync :: "path \<Rightarrow> world \<Rightarrow> world" where
  "rmSync d w = (call (Rm d) w)\<lparr>fsys := filter (\<lambda>(p, n). \<not> prefix d p) (fsys w)\<rparr>"

text \<open>\<^verbatim>\<open>mkdirSync(dir, { recursive: true })\<close> and \<^verbatim>\<open>mkdir -p\<close>.\<close>

definition mkdirSync :: "path \<Rightarrow> world \<Rightarrow> (error + unit) \<times> world" where
  "mkdirSync d w =
     (let w1 = call (Mkdir d) w in
      if list_ex (\<lambda>q. is_file w1 q) (prefixes d) then (Inl FsError, w1)
      else (Inr (), w1\<lparr>fsys := fsys w1 @
              map (\<lambda>q. (q, Dir)) (filter (\<lambda>q. node_at (fsys w1) q = None) (prefixes d))\<rparr>))"

definition writeFileSync :: "path \<Rightarrow> content \<Rightarrow> world \<Rightarrow> (error + unit) \<times> world" where
  "writeFileSync p c w =
     (let w1 = call (WriteFile p c) w in
      if is_dir w1 p \<or> \<not> is_dir w1 (butlast p) then (Inl FsError, w1)
      else (Inr (), w1\<lparr>fsys := overlay [(p, File c)] (fsys w1)\<rparr>))"

definition readFileSync :: "world \<Rightarrow> path \<Rightarrow> error + content" where
  "readFileSync w p = (case node_at (fsys w) p of Some (File c) \<Rightarrow> Inr c | _ \<Rightarrow> Inl FsError)"

definition JSON_parse :: "content \<Rightarrow> error + json" where
  "JSON_parse c = (case c of Json j \<Rightarrow> Inr j | Raw s \<Rightarrow> Inl SyntaxError)"

text \<open>
  \<^verbatim>\<open>path.join(base, rel)\<close> for a string \<open>rel\<close>: empty and \<^verbatim>\<open>.\<close> segments vanish,
  \<^verbatim>\<open>..\<close> removes the last component.
\<close>

definition path_step :: "path \<Rightarrow> string \<Rightarrow> path" where
  "path_step p seg = (if seg = [] \<or> seg = ''.'' then p else if seg = ''..'' then butlast p else p @ [seg])"

definition path_join :: "path \<Rightarrow> string \<Rightarrow> path" where
  "path_join base rel = foldl path_step base (split CHR ''/'' rel)"

definition resolve :: "path \<Rightarrow> string \<Rightarrow> path" where
  "resolve base s = (if take 1 s = ''/'' then path_join [] s else path_join base s)"

definition render :: "path \<Rightarrow> string" where
  "render p = (if p = [] then ''/'' else concat (map (\<lambda>seg. CHR ''/'' # seg) p))"

text \<open>\<^verbatim>\<open>String.prototype.replace\<close> with a string pattern: the first occurrence only.\<close>

fun replace_first :: "string \<Rightarrow> string \<Rightarrow> string \<Rightarrow> string" where
  "replace_first pat rep [] = (if pat = [] then rep else [])"
| "replace_first pat rep (x # xs) =
     (if prefix pat (x # xs) then rep @ drop (length pat) (x # xs)
      else x # replace_first pat rep xs)"

definition is_space :: "char \<Rightarrow> bool" where
  "is_space ch = (ch = CHR '' '' \<or> ch = CHR 0x0A \<or> ch = CHR 0x0D \<or> ch = CHR 0x09)"

definition trim :: "string \<Rightarrow> string" where
  "trim s = rev (dropWhile is_space (rev (dropWhile is_space s)))"

text \<open>
  \<^verbatim>\<open>cp -r "src"/* "dst"/\<close>: the shell expands \<^verbatim>\<open>*\<close> to the children of \<open>src\<close> whose
  names do not start with a dot; with no such child the pattern stays unexpanded and cp
  fails. Every entry below a matched child is copied over what \<open>dst\<close> holds.
\<close>

definition cp_r :: "env \<Rightarrow> path \<Rightarrow> path \<Rightarrow> world \<Rightarrow> (error + unit) \<times> world" where
  "cp_r en src dst w =
     (let w1 = call (Cp src dst) w;
          matched = filter (\<lambda>(p, n). length src < length p \<and> prefix src p
                                    \<and> take 1 (p ! length src) \<noteq> ''.'') (fsys w1);
          copied = map (\<lambda>(p, n). (dst @ drop (length src) p, n)) matched
      in if \<not> cp_ok en \<or> copied = [] then (Inl ExecError, w1)
         else (Inr (), w1\<lparr>fsys := overlay copied (fsys w1)\<rparr>))"

definition git_clone :: "env \<Rightarrow> string \<Rightarrow> string option \<Rightarrow> path \<Rightarrow> world \<Rightarrow> (error + unit) \<times> world" where
  "git_clone en repository branch target w =
     (let w1 = call (Git_clone repository branch target) w in
      if clone_ok en
      then (Inr (), w1\<lparr>fsys := overlay ((target, Dir) # rebase target (clone_tree en)) (fsys w1)\<rparr>)
      else (Inl ExecError, w1))"

definition git_sparse_checkout_set :: "env \<Rightarrow> path \<Rightarrow> string list \<Rightarrow> world \<Rightarrow> (error + unit) \<times> world" where
  "git_sparse_checkout_set en target paths w =
     (let w1 = call (Git_sparse_set target paths) w in
      if sparse_ok en paths
      then (Inr (), w1\<lparr>fsys := overlay (rebase target (sparse_tree en paths)) (fsys w1)\<rparr>)
      else (Inl ExecError, w1))"

definition git_rev_parse :: "env \<Rightarrow> path \<Rightarrow> world \<Rightarrow> (error + string) \<times> world" where
  "git_rev_parse en target w =
     (let w1 = call (Git_rev_parse target) w in
      case rev_parse_out en of None \<Rightarrow> (Inl ExecError, w1) | Some s \<Rightarrow> (Inr s, w1))"


section \<open>Fetching the registry (utils/registry-fetcher.ts)\<close>

datatype fetch_source = Github | Local

record FetchRegistryOptions =
  fo_source :: "fetch_source option"
  fo_repository :: "string option"
  fo_branch :: "string option"
  fo_localPath :: "string option"

definition dflt :: "'a \<Rightarrow> 'a option \<Rightarrow> 'a" where
  "dflt d x = (case x of None \<Rightarrow> d | Some v \<Rightarrow> v)"

definition validate :: "json \<Rightarrow> error + Registry" where
  "validate registryData = (case RegistrySchema registryData of None \<Rightarrow> Inl ZodError | Some r \<Rightarrow> Inr r)"

definition fetchRegistry :: "env \<Rightarrow> FetchRegistryOptions \<Rightarrow> world \<Rightarrow> (error + Registry) \<times> world" where
  "fetchRegistry en options w =
     (let source = dflt Github (fo_source options);
          repository = dflt ''darrenhinde/OpenAgentsControl'' (fo_repository options);
          branch = dflt ''main'' (fo_branch options);
          localPath = fo_localPath options
      in if source = Github then
           (let url = ''https://raw.githubusercontent.com/'' @ repository @ ''/'' @ branch @ ''/registry.json'';
                w1 = call (Fetch url) w
            in case http_get en url of
                 Rejected \<Rightarrow> (Inl FetchFailed, w1)
               | Response ok statusText body \<Rightarrow>
                   if \<not> ok then (Inl (Error (''Failed to fetch registry: '' @ statusText)), w1)
                   else (case body of
                           None \<Rightarrow> (Inl SyntaxError, w1)
                         | Some registryData \<Rightarrow> (validate registryData, w1)))
         else
           (case localPath of
              None \<Rightarrow> (Inl (Error ''localPath required for local source''), w)
            | Some lp \<Rightarrow>
                if lp = [] then (Inl (Error ''localPath required for local source''), w)
                else case readFileSync w (resolve (cwd en) lp) of
                       Inl e \<Rightarrow> (Inl e, w)
                     | Inr c \<Rightarrow> (case JSON_parse c of
                                  Inl e \<Rightarrow> (Inl e, w)
                                | Inr registryData \<Rightarrow> (validate registryData, w))))"

section \<open>Sparse checkout (utils/git-sparse.ts)\<close>

record GitSparseResult =
  clone_success :: bool
  commit :: string
  clone_error :: "string option"

definition sparseClone_try ::
  "env \<Rightarrow> string \<Rightarrow> string \<Rightarrow> string list \<Rightarrow> path \<Rightarrow> bool \<Rightarrow> world \<Rightarrow> (error + string) \<times> world" where
  "sparseClone_try en repository branch paths targetDir verbose w =
     (let w1 = (if existsSync w targetDir then rmSync targetDir w else w);
          parentDir = butlast targetDir
      in thenE (if \<not> existsSync w1 parentDir then mkdirSync parentDir w1 else (Inr (), w1)) (\<lambda>_ w2.
         thenE (git_clone en repository (Some branch) targetDir
                  (say_if verbose L_plain [Str ''Cloning '', Str repository, Str ''...''] w2)) (\<lambda>_ w3.
         thenE (git_sparse_checkout_set en targetDir paths
                  (say_if verbose L_plain [Str ''Configuring sparse checkout...''] w3)) (\<lambda>_ w4.
         thenE (git_rev_parse en targetDir w4) (\<lambda>out w5.
           (Inr (trim out), say_if verbose L_plain [Str ''Downloaded commit: '', Str (trim out)] w5))))))"

definition sparseClone ::
  "env \<Rightarrow> string \<Rightarrow> string \<Rightarrow> string list \<Rightarrow> path \<Rightarrow> bool \<Rightarrow> world \<Rightarrow> GitSparseResult \<times> world" where
  "sparseClone en repository branch paths targetDir verbose w =
     (case sparseClone_try en repository branch paths targetDir verbose w of
        (Inr c, w') \<Rightarrow> (\<lparr> clone_success = True, commit = c, clone_error = None \<rparr>, w')
      | (Inl e, w') \<Rightarrow> (\<lparr> clone_success = False, commit = [], clone_error = Some (message en e) \<rparr>, w'))"

definition copyFiles :: "env \<Rightarrow> path \<Rightarrow> path \<Rightarrow> bool \<Rightarrow> world \<Rightarrow> (error + unit) \<times> world" where
  "copyFiles en sourceDir targetDir verbose w =
     (if \<not> existsSync w sourceDir then (Inl (Error (''Source directory not found: '' @ render sourceDir)), w)
      else thenE (if \<not> existsSync w targetDir then mkdirSync targetDir w else (Inr (), w)) (\<lambda>_ w1.
           cp_r en sourceDir targetDir
             (say_if verbose L_plain
                [Str ''Copying files from '', Str (render sourceDir), Str '' to '', Str (render targetDir), Str ''...''] w1)))"

definition cleanup :: "path \<Rightarrow> bool \<Rightarrow> world \<Rightarrow> world" where
  "cleanup dir verbose w =
     (if existsSync w dir
      then rmSync dir (say_if verbose L_plain [Str ''Cleaning up '', Str (render dir), Str ''...''] w)
      else w)"

definition checkGitAvailable :: "env \<Rightarrow> bool" where
  "checkGitAvailable en = git_available en"


section \<open>The TypeScript installer (install-context.ts)\<close>

definition GITHUB_REPO :: string where
  "GITHUB_REPO = ''darrenhinde/OpenAgentsControl''"

definition GITHUB_BRANCH :: string where
  "GITHUB_BRANCH = ''main''"

definition CONTEXT_SOURCE_PATH :: string where
  "CONTEXT_SOURCE_PATH = ''.opencode/context''"

definition PLUGIN_ROOT :: "env \<Rightarrow> path" where
  "PLUGIN_ROOT en = (case CLAUDE_PLUGIN_ROOT en of Some p \<Rightarrow> p | None \<Rightarrow> cwd en)"

definition CONTEXT_DIR :: "env \<Rightarrow> path" where
  "CONTEXT_DIR en = PLUGIN_ROOT en @ [''context'']"

definition MANIFEST_FILE :: "env \<Rightarrow> path" where
  "MANIFEST_FILE en = PLUGIN_ROOT en @ [''.context-manifest.json'']"

record InstallOptions =
  profile :: "Profile option"
  customComponents :: "string list option"
  dryRun :: "bool option"
  force :: "bool option"
  verbose :: "bool option"

text \<open>
  The \<open>manifest\<close> of a result is a JSON value: the short-circuit returns whatever the
  manifest file parses to, cast without validation.
\<close>

record InstallResult =
  success :: bool
  manifest :: json
  errors :: "string list option"

fun profile_name :: "Profile \<Rightarrow> string" where
  "profile_name P_essential = ''essential''"
| "profile_name P_standard = ''standard''"
| "profile_name P_extended = ''extended''"
| "profile_name P_specialized = ''specialized''"
| "profile_name P_all = ''all''"

definition says :: "(level \<times> part list) list \<Rightarrow> world \<Rightarrow> world" where
  "says ls w = w\<lparr>console := console w @ ls\<rparr>"

definition local_path :: "env \<Rightarrow> Component \<Rightarrow> path" where
  "local_path en c = path_join (CONTEXT_DIR en) (replace_first (CONTEXT_SOURCE_PATH @ ''/'') [] (c_path c))"

definition manifest_component :: "env \<Rightarrow> Component \<Rightarrow> json" where
  "manifest_component en c =
     JObj [(''id'', JStr (c_id c)),
           (''name'', JStr (c_name c)),
           (''path'', JStr (c_path c)),
           (''local_path'', JStr (render (local_path en c))),
           (''category'', JStr (c_category c))]"

definition manifest_profile :: "Profile \<Rightarrow> string list \<Rightarrow> json" where
  "manifest_profile prof custom = JStr (if 0 < length custom then ''custom'' else profile_name prof)"

definition make_manifest :: "env \<Rightarrow> Profile \<Rightarrow> string list \<Rightarrow> string \<Rightarrow> Component list \<Rightarrow> json" where
  "make_manifest en prof custom sha components =
     JObj [(''version'', JStr ''1.0.0''),
           (''profile'', manifest_profile prof custom),
           (''source'', JObj [(''repository'', JStr GITHUB_REPO),
                             (''branch'', JStr GITHUB_BRANCH),
                             (''commit'', JStr sha),
                             (''downloaded_at'', JStr (now en))]),
           (''context'', JArr (map (manifest_component en) components))]"

definition tempDir :: "env \<Rightarrow> path" where
  "tempDir en = PLUGIN_ROOT en @ [''.tmp-context-download'']"

definition oacJsonPath :: "env \<Rightarrow> path" where
  "oacJsonPath en = butlast (PLUGIN_ROOT en) @ [''.oac.json'']"

definition contextRelPath :: "env \<Rightarrow> string" where
  "contextRelPath en = join ''/'' (drop (length (butlast (PLUGIN_ROOT en))) (CONTEXT_DIR en))"

definition oacConfig :: "string \<Rightarrow> json" where
  "oacConfig root = JObj [(''version'', JStr ''1''), (''context'', JObj [(''root'', JStr root)])]"

definition ensure_oac_json :: "env \<Rightarrow> world \<Rightarrow> (error + unit) \<times> world" where
  "ensure_oac_json en w =
     (if \<not> existsSync w (oacJsonPath en) then
        thenE (writeFileSync (oacJsonPath en) (Json (oacConfig (contextRelPath en))) w) (\<lambda>_ w1.
          (Inr (), say L_success [Str ''.oac.json created at project root, context.root = '',
                                  Str (contextRelPath en)] w1))
      else (Inr (), say L_info [Str ''.oac.json already exists at project root - skipping (use --force to overwrite)''] w))"

definition verify_component :: "env \<Rightarrow> bool \<Rightarrow> world \<Rightarrow> Component \<Rightarrow> (level \<times> part list) list" where
  "verify_component en verb w c =
     (if existsSync w (local_path en c)
      then (if verb then [(L_success, [Str (c_id c), Str '': EXISTS''])] else [])
      else [(L_error, [Str (c_id c), Str '': MISSING''])])"

definition verify_installation :: "env \<Rightarrow> bool \<Rightarrow> Component list \<Rightarrow> world \<Rightarrow> world" where
  "verify_installation en verb components w =
     (let filesExist = length (filter (\<lambda>c. existsSync w (local_path en c)) components);
          filesMissing = length (filter (\<lambda>c. \<not> existsSync w (local_path en c)) components)
      in says ([(L_info, [Str ''Verifying installation...''])]
               @ concat (map (verify_component en verb w) components)
               @ [(L_plain, []),
                  (L_success, [Str ''Installation complete!'']),
                  (L_info, [Str ''Files verified: '', Num filesExist, Str ''/'', Num (length components)])]
               @ (if 0 < filesMissing then [(L_warning, [Str ''Missing files: '', Num filesMissing])] else []))
              w)"

definition download_and_install ::
  "env \<Rightarrow> Profile \<Rightarrow> string list \<Rightarrow> bool \<Rightarrow> Component list \<Rightarrow> world \<Rightarrow> (error + InstallResult) \<times> world" where
  "download_and_install en prof custom verb components w =
     (let sparsePaths = getUniquePaths components;
          w1 = says ((if verb
                      then [(L_info, [Str ''Sparse checkout paths:''])]
                           @ map (\<lambda>p. (L_plain, [Str ''  - '', Str p])) sparsePaths @ [(L_plain, [])]
                      else [])
                     @ [(L_info, [Str ''Downloading context files...''])]) w;
          (cloneResult, w2) = sparseClone en GITHUB_REPO GITHUB_BRANCH sparsePaths (tempDir en) verb w1
      in if \<not> clone_success cloneResult
         then (Inl (Error (''Git sparse clone failed: '' @ dflt ''undefined'' (clone_error cloneResult))), w2)
         else
           thenE (copyFiles en (path_join (tempDir en) CONTEXT_SOURCE_PATH) (CONTEXT_DIR en) verb
                    (says [(L_success, [Str ''Files downloaded successfully'']), (L_plain, []),
                           (L_info, [Str ''Copying files to context directory...''])] w2)) (\<lambda>_ w3.
           thenE (writeFileSync (MANIFEST_FILE en)
                    (Json (make_manifest en prof custom (commit cloneResult) components))
                    (says [(L_success, [Str ''Files copied to: '', Str (render (CONTEXT_DIR en))]), (L_plain, []),
                           (L_info, [Str ''Creating manifest...''])] w3)) (\<lambda>_ w4.
           thenE (ensure_oac_json en
                    (says [(L_success, [Str ''Manifest created: '', Str (render (MANIFEST_FILE en))]),
                           (L_plain, [])] w4)) (\<lambda>_ w5.
             (Inr \<lparr> success = True,
                    manifest = make_manifest en prof custom (commit cloneResult) components,
                    errors = None \<rparr>,
              verify_installation en verb components
                (cleanup (tempDir en) verb (say L_plain [] w5)))))))"

definition select_components :: "Registry \<Rightarrow> Profile \<Rightarrow> string list \<Rightarrow> world \<Rightarrow> (error + Component list) \<times> world" where
  "select_components registry prof custom w =
     (if 0 < length custom
      then (Inr (filterContextByIds registry custom),
            say L_info [Str ''Filtering by custom component IDs...''] w)
      else (filterContextByProfile registry prof,
            say L_info [Str ''Filtering by profile: '', Str (profile_name prof)] w))"

text \<open>Lines 101 to 243: the report of the selection, then the dry-run result or the download.\<close>

definition report_and_install ::
  "env \<Rightarrow> Profile \<Rightarrow> string list \<Rightarrow> bool \<Rightarrow> bool \<Rightarrow> Component list \<Rightarrow> world \<Rightarrow> (error + InstallResult) \<times> world" where
  "report_and_install en prof custom verb dry components w =
     (let w1 = says ([(L_success, [Str ''Selected '', Num (length components), Str '' components''])]
                     @ (if verb
                        then [(L_plain, []), (L_info, [Str ''Components to install:''])]
                             @ map (\<lambda>c. (L_plain, [Str ''  - '', Str (c_id c), Str '': '', Str (c_path c)]))
                                   components
                        else [])
                     @ [(L_plain, [])]) w
      in if dry
         then (Inr \<lparr> success = True,
                     manifest = make_manifest en prof custom ''dry-run'' components,
                     errors = None \<rparr>,
               say L_info [Str ''Dry run mode - no files will be downloaded''] w1)
         else download_and_install en prof custom verb components w1)"

text \<open>Lines 87 to 99, then the above.\<close>

definition select_and_install ::
  "env \<Rightarrow> Profile \<Rightarrow> string list \<Rightarrow> bool \<Rightarrow> bool \<Rightarrow> Registry \<Rightarrow> world \<Rightarrow> (error + InstallResult) \<times> world" where
  "select_and_install en prof custom verb dry registry w =
     thenE (select_components registry prof custom
              (says [(L_success, [Str ''Registry version: '', Str (r_version registry)]),
                     (L_success, [Str ''Context components available: '',
                                  Num (length (or_empty (contexts (r_components registry))))]),
                     (L_plain, [])] w))
           (report_and_install en prof custom verb dry)"

definition installContext_try :: "env \<Rightarrow> InstallOptions \<Rightarrow> world \<Rightarrow> (error + InstallResult) \<times> world" where
  "installContext_try en options w =
     (let prof = dflt P_essential (profile options);
          custom = dflt [] (customComponents options);
          dry = dflt False (dryRun options);
          forced = dflt False (force options);
          verb = dflt False (verbose options)
      in if \<not> checkGitAvailable en then (Inl (Error ''Git is not available. Please install git.''), w)
         else if existsSync w (MANIFEST_FILE en) \<and> \<not> forced then
           (let w1 = say L_warning [Str ''Context already installed. Use --force to reinstall.''] w
            in case readFileSync w1 (MANIFEST_FILE en) of
                 Inl e \<Rightarrow> (Inl e, w1)
               | Inr c \<Rightarrow> (case JSON_parse c of
                            Inl e \<Rightarrow> (Inl e, w1)
                          | Inr m \<Rightarrow> (Inr \<lparr> success = True, manifest = m, errors = None \<rparr>, w1)))
         else
           thenE (fetchRegistry en
                    \<lparr> fo_source = Some Github, fo_repository = Some GITHUB_REPO,
                      fo_branch = Some GITHUB_BRANCH, fo_localPath = None \<rparr>
                    (says [(L_header, [Str ''Context Installer'']),
                           (L_info, [Str ''Profile: '', Str (profile_name prof)]),
                           (L_info, [Str ''Repository: '', Str GITHUB_REPO]),
                           (L_info, [Str ''Branch: '', Str GITHUB_BRANCH]),
                           (L_info, [Str ''Dry run: '', Flag dry]),
                           (L_plain, []),
                           (L_info, [Str ''Fetching registry from GitHub...''])] w))
                 (select_and_install en prof custom verb dry))"

definition installContext :: "env \<Rightarrow> InstallOptions \<Rightarrow> world \<Rightarrow> InstallResult \<times> world" where
  "installContext en options w =
     (case installContext_try en options w of
        (Inr r, w') \<Rightarrow> (r, w')
      | (Inl e, w') \<Rightarrow>
          (\<lparr> success = False,
             manifest = make_manifest en P_essential [] [] [],
             errors = Some [message en e] \<rparr>,
           says [(L_error, [Str ''Installation failed'']), (L_error, [Str (message en e)])] w'))"


section \<open>The Node installer (install-context.js)\<close>

definition PROFILES :: "(string \<times> string list) list" where
  "PROFILES =
     [(''core'', [''core'', ''openagents-repo'']),
      (''full'', [''core'', ''openagents-repo'', ''development'', ''ui'', ''content-creation'', ''data'',
                 ''product'', ''learning'', ''project'', ''project-intelligence''])]"

definition PROFILE_MAP :: "(string \<times> string) list" where
  "PROFILE_MAP =
     [(''essential'', ''core''),
      (''standard'', ''core''),
      (''extended'', ''full''),
      (''specialized'', ''full''),
      (''all'', ''full''),
      (''core'', ''core''),
      (''full'', ''full'')]"

text \<open>
  \<^verbatim>\<open>PROFILE_MAP[name]\<close> is a property read on an object literal: besides the seven own
  keys it finds the members inherited from \<^verbatim>\<open>Object.prototype\<close>, which are truthy but
  are not profile names.
\<close>

definition Object_prototype_keys :: "string list" where
  "Object_prototype_keys =
     [''constructor'', ''__defineGetter__'', ''__defineSetter__'', ''hasOwnProperty'',
      ''__lookupGetter__'', ''__lookupSetter__'', ''isPrototypeOf'', ''propertyIsEnumerable'',
      ''toString'', ''valueOf'', ''__proto__'', ''toLocaleString'']"

datatype property = Own string | Inherited | Undefined

definition PROFILE_MAP_get :: "string \<Rightarrow> property" where
  "PROFILE_MAP_get name =
     (case map_of PROFILE_MAP name of
        Some v \<Rightarrow> Own v
      | None \<Rightarrow> if name \<in> set Object_prototype_keys then Inherited else Undefined)"

record Flags =
  profileName :: string
  customCategories :: "string list"
  isGlobal :: bool
  forced :: bool
  dry :: bool

text \<open>\<^verbatim>\<open>arg.split('=')[1]\<close> for an argument that contains \<^verbatim>\<open>=\<close>.\<close>

definition after_eq :: "string \<Rightarrow> string" where
  "after_eq arg = (case split CHR ''='' arg of a # v # rest \<Rightarrow> v | _ \<Rightarrow> [])"

definition js_usage :: "level \<times> part list" where
  "js_usage = (L_plain, [Str ''Usage: node install-context.js [OPTIONS]''])"

text \<open>The argument loop of \<open>main\<close>; \<open>Inl code\<close> is \<^verbatim>\<open>process.exit(code)\<close>.\<close>

fun js_parse :: "string list \<Rightarrow> Flags \<Rightarrow> world \<Rightarrow> (nat + Flags) \<times> world" where
  "js_parse [] fl w = (Inr fl, w)"
| "js_parse (arg # args) fl w =
     (if arg = ''--help'' \<or> arg = ''-h'' then (Inl 0, says [js_usage] w)
      else if arg = ''--force'' then js_parse args (fl\<lparr>forced := True\<rparr>) w
      else if arg = ''--dry-run'' then js_parse args (fl\<lparr>dry := True\<rparr>) w
      else if arg = ''--global'' then js_parse args (fl\<lparr>isGlobal := True\<rparr>) w
      else if prefix ''--profile='' arg then
        (if PROFILE_MAP_get (after_eq arg) = Undefined
         then (Inl 1, says [(L_error, [Str ''Unknown profile: '', Str (after_eq arg)]),
                            (L_info, [Str ''Valid profiles: '', Str (join '', '' (map fst PROFILE_MAP))])] w)
         else js_parse args (fl\<lparr>profileName := after_eq arg\<rparr>) w)
      else if prefix ''--category='' arg
        then js_parse args (fl\<lparr>customCategories := customCategories fl @ [after_eq arg]\<rparr>) w
      else if PROFILE_MAP_get arg \<noteq> Undefined then js_parse args (fl\<lparr>profileName := arg\<rparr>) w
      else (Inl 1, says [(L_error, [Str ''Unknown argument: '', Str arg]), js_usage] w))"

definition GLOBAL_ROOT :: "env \<Rightarrow> path" where
  "GLOBAL_ROOT en = homedir en @ [''.claude'']"

definition installRoot :: "env \<Rightarrow> bool \<Rightarrow> path" where
  "installRoot en g = (if g then GLOBAL_ROOT en else cwd en @ [''.claude''])"

definition scopeLabel :: "bool \<Rightarrow> string" where
  "scopeLabel g = (if g then ''global (~/.claude/context)'' else ''project (.claude/context)'')"

definition project_oac_json :: "env \<Rightarrow> path" where
  "project_oac_json en = cwd en @ [''.oac.json'']"

text \<open>
  The category list of a run and the profile name it reports. \<open>None\<close> is the
  \<^verbatim>\<open>TypeError\<close> of reading \<^verbatim>\<open>.categories\<close> of \<^verbatim>\<open>undefined\<close>.
\<close>

definition js_categories :: "Flags \<Rightarrow> (string \<times> string list) option" where
  "js_categories fl =
     (if 0 < length (customCategories fl) then Some (''custom'', customCategories fl)
      else case PROFILE_MAP_get (profileName fl) of
             Own v \<Rightarrow> map_option (\<lambda>cs. (profileName fl, cs)) (map_of PROFILES v)
           | Undefined \<Rightarrow> map_option (\<lambda>cs. (profileName fl, cs)) (map_of PROFILES ''core'')
           | Inherited \<Rightarrow> None)"

definition count_files :: "world \<Rightarrow> path \<Rightarrow> nat" where
  "count_files w d = length (filter (\<lambda>(p, n). prefix d p \<and> n \<noteq> Dir) (fsys w))"

definition js_tempDir :: "env \<Rightarrow> path" where
  "js_tempDir en = tmpdir en @ [''oac-context-'' @ tmp_name en]"

definition mkdtempSync :: "path \<Rightarrow> world \<Rightarrow> (error + unit) \<times> world" where
  "mkdtempSync d w =
     (let w1 = call (Mkdtemp d) w in
      if existsSync w1 d \<or> \<not> is_dir w1 (butlast d) then (Inl FsError, w1)
      else (Inr (), w1\<lparr>fsys := fsys w1 @ [(d, Dir)]\<rparr>))"

definition category_paths :: "string list \<Rightarrow> string list" where
  "category_paths categories =
     map (\<lambda>cat. CONTEXT_SOURCE_PATH @ ''/'' @ cat) categories @ [CONTEXT_SOURCE_PATH @ ''/navigation.md'']"

definition downloadContext_try :: "env \<Rightarrow> string list \<Rightarrow> path \<Rightarrow> world \<Rightarrow> (error + string) \<times> world" where
  "downloadContext_try en categories contextDir w =
     thenE (git_clone en GITHUB_REPO None (js_tempDir en)
              (says [(L_info, [Str ''Downloading from '', Str GITHUB_REPO, Str ''...'']),
                     (L_info, [Str ''Cloning repository...''])] w)) (\<lambda>_ w1.
     thenE (git_rev_parse en (js_tempDir en) w1) (\<lambda>out w2.
     thenE (git_sparse_checkout_set en (js_tempDir en) (category_paths categories)
              (say L_info [Str ''Configuring sparse checkout...''] w2)) (\<lambda>_ w3.
     thenE (mkdirSync contextDir (say L_info [Str ''Copying context files...''] w3)) (\<lambda>_ w4.
       if \<not> existsSync w4 (path_join (js_tempDir en) CONTEXT_SOURCE_PATH)
       then (Inl (Error ''Context directory not found in repository''), w4)
       else thenE (cp_r en (path_join (js_tempDir en) CONTEXT_SOURCE_PATH) contextDir w4) (\<lambda>_ w5.
              (Inr (trim out),
               say L_success [Str ''Downloaded '', Num (count_files w5 contextDir), Str '' files''] w5))))))"

text \<open>
  \<open>Inl code\<close> ends the process: \<^verbatim>\<open>process.exit(1)\<close> in the \<^verbatim>\<open>catch\<close> block leaves at
  once, so the \<^verbatim>\<open>finally\<close> block runs on the returning path only. An exception of
  \<^verbatim>\<open>mkdtempSync\<close>, outside the \<^verbatim>\<open>try\<close>, is uncaught and ends the process with code 1.
\<close>

definition downloadContext :: "env \<Rightarrow> string list \<Rightarrow> path \<Rightarrow> world \<Rightarrow> (nat + string) \<times> world" where
  "downloadContext en categories contextDir w =
     (case mkdtempSync (js_tempDir en) w of
        (Inl e, w0) \<Rightarrow> (Inl 1, w0)
      | (Inr _, w0) \<Rightarrow>
          (case downloadContext_try en categories contextDir w0 of
             (Inr sha, w') \<Rightarrow> (Inr sha, rmSync (js_tempDir en) w')
           | (Inl e, w') \<Rightarrow>
               (Inl 1, says [(L_error, [Str ''Failed to download context'']),
                             (L_error, [Str (message en e)])] w')))"

fun obj_set :: "string \<Rightarrow> json \<Rightarrow> (string \<times> json) list \<Rightarrow> (string \<times> json) list" where
  "obj_set k v [] = [(k, v)]"
| "obj_set k v ((k', v') # kvs) = (if k = k' then (k, v) # kvs else (k', v') # obj_set k v kvs)"

definition category_counts :: "world \<Rightarrow> path \<Rightarrow> string list \<Rightarrow> (string \<times> json) list" where
  "category_counts w contextDir categories =
     foldl (\<lambda>fileCounts category.
              if existsSync w (path_join contextDir category)
              then obj_set category (JNum (int (count_files w (path_join contextDir category)))) fileCounts
              else fileCounts)
           [] categories"

definition js_manifest :: "env \<Rightarrow> world \<Rightarrow> string \<Rightarrow> string list \<Rightarrow> string \<Rightarrow> path \<Rightarrow> json" where
  "js_manifest en w prof categories sha contextDir =
     JObj [(''version'', JStr ''1.0.0''),
           (''profile'', JStr prof),
           (''source'', JObj [(''repository'', JStr GITHUB_REPO),
                             (''branch'', JStr GITHUB_BRANCH),
                             (''commit'', JStr sha),
                             (''downloaded_at'', JStr (now en))]),
           (''categories'', JArr (map JStr categories)),
           (''files'', JObj (category_counts w contextDir categories))]"

definition createManifest ::
  "env \<Rightarrow> string \<Rightarrow> string list \<Rightarrow> string \<Rightarrow> path \<Rightarrow> path \<Rightarrow> world \<Rightarrow> (error + unit) \<times> world" where
  "createManifest en prof categories sha contextDir manifestFile w =
     thenE (mkdirSync (butlast manifestFile) w) (\<lambda>_ w1.
     thenE (writeFileSync manifestFile (Json (js_manifest en w prof categories sha contextDir)) w1) (\<lambda>_ w2.
       (Inr (), say L_success [Str ''Manifest created: '', Str (render manifestFile)] w2)))"

text \<open>
  The report of the existing manifest, inside \<^verbatim>\<open>try { ... } catch { /* ignore */ }\<close>:
  no line is printed when the file does not parse, when it parses to \<^verbatim>\<open>null\<close>, or when
  \<^verbatim>\<open>downloaded_at\<close> has no \<^verbatim>\<open>slice\<close>.
\<close>

definition sliced :: "json option \<Rightarrow> json option option" where
  "sliced v =
     (case v of
        None \<Rightarrow> Some None
      | Some JNull \<Rightarrow> Some None
      | Some (JStr t) \<Rightarrow> Some (Some (JStr (take 10 t)))
      | Some (JArr xs) \<Rightarrow> Some (Some (JArr (take 10 xs)))
      | Some _ \<Rightarrow> None)"

definition report_existing :: "world \<Rightarrow> path \<Rightarrow> (json option \<times> json option) option" where
  "report_existing w manifestFile =
     (case readFileSync w manifestFile of
        Inl e \<Rightarrow> None
      | Inr c \<Rightarrow>
          (case JSON_parse c of
             Inl e \<Rightarrow> None
           | Inr JNull \<Rightarrow> None
           | Inr (JObj kvs) \<Rightarrow>
               (case map_of kvs ''source'' of
                  Some (JObj src) \<Rightarrow>
                    map_option (\<lambda>d. (map_of kvs ''profile'', d)) (sliced (map_of src ''downloaded_at''))
                | _ \<Rightarrow> Some (map_of kvs ''profile'', None))
           | Inr _ \<Rightarrow> Some (None, None)))"

definition js_pointer :: "env \<Rightarrow> bool \<Rightarrow> world \<Rightarrow> (error + unit) \<times> world" where
  "js_pointer en g w =
     (if g then
        (Inr (), say L_info [Str ''Global install - no .oac.json needed (discovery chain finds ~/.claude/context automatically)''] w)
      else if \<not> existsSync w (project_oac_json en) then
        thenE (writeFileSync (project_oac_json en) (Json (oacConfig ''.claude/context'')) w) (\<lambda>_ w1.
          (Inr (), say L_success [Str ''.oac.json created at project root''] w1))
      else (Inr (), say L_info [Str ''.oac.json already exists - skipping''] w))"

definition js_install :: "env \<Rightarrow> Flags \<Rightarrow> string \<Rightarrow> string list \<Rightarrow> world \<Rightarrow> nat \<times> world" where
  "js_install en fl prof categories w =
     (let root = installRoot en (isGlobal fl);
          contextDir = root @ [''context''];
          manifestFile = root @ [''.context-manifest.json'']
      in case downloadContext en categories contextDir w of
           (Inl code, w1) \<Rightarrow> (code, w1)
         | (Inr sha, w1) \<Rightarrow>
             (case createManifest en prof categories sha contextDir manifestFile w1 of
                (Inl e, w2) \<Rightarrow> (1, w2)
              | (Inr _, w2) \<Rightarrow>
                  (case js_pointer en (isGlobal fl) w2 of
                     (Inl e, w3) \<Rightarrow> (1, w3)
                   | (Inr _, w3) \<Rightarrow>
                       (0, says [(L_plain, []),
                                 (L_success, [Str ''Context installation complete!'']),
                                 (L_info, [Str ''Scope:    '', Str (scopeLabel (isGlobal fl))]),
                                 (L_info, [Str ''Context:  '', Str (render contextDir)]),
                                 (L_info, [Str ''Manifest: '', Str (render manifestFile)]),
                                 (L_plain, [])] w3))))"

definition js_run :: "env \<Rightarrow> Flags \<Rightarrow> world \<Rightarrow> nat \<times> world" where
  "js_run en fl w =
     (let root = installRoot en (isGlobal fl);
          contextDir = root @ [''context''];
          manifestFile = root @ [''.context-manifest.json'']
      in case js_categories fl of
           None \<Rightarrow> (1, w)
         | Some (prof, categories) \<Rightarrow>
             if existsSync w manifestFile \<and> \<not> forced fl then
               (0, says ([(L_warning, [Str ''Context already installed at '', Str (scopeLabel (isGlobal fl)),
                                       Str ''. Use --force to reinstall.''])]
                         @ (case report_existing w manifestFile of
                              None \<Rightarrow> []
                            | Some (p, d) \<Rightarrow>
                                [(L_info, [Str ''Profile: '', Js p, Str '', installed: '', Js d])])) w)
             else if \<not> git_available en then
               (1, says [(L_error, [Str ''git is required but not found.'']),
                         (L_info, [Str ''Install: brew install git (Mac) or sudo apt install git (Linux)''])] w)
             else
               (let w1 = says [(L_plain, []),
                               (L_info, [Str ''Scope:      '', Str (scopeLabel (isGlobal fl))]),
                               (L_info, [Str ''Profile:    '', Str prof]),
                               (L_info, [Str ''Categories: '', Str (join '', '' categories)]),
                               (L_info, [Str ''Target:     '', Str (render contextDir)]),
                               (L_plain, [])] w
                in if dry fl then (0, say L_info [Str ''Dry run - no files downloaded''] w1)
                   else js_install en fl prof categories w1))"

definition js_main :: "env \<Rightarrow> string list \<Rightarrow> world \<Rightarrow> nat \<times> world" where
  "js_main en args w =
     (case js_parse args \<lparr> profileName = ''standard'', customCategories = [], isGlobal = False,
                           forced = False, dry = False \<rparr> w of
        (Inl code, w') \<Rightarrow> (code, w')
      | (Inr fl, w') \<Rightarrow> js_run en fl w')"


section \<open>The shell installer (install-context.sh)\<close>

text \<open>
  The script runs under \<^verbatim>\<open>set -euo pipefail\<close>: a failing command ends it. Exit codes
  of failing commands are modelled as 1. The manifest text written by \<^verbatim>\<open>printf\<close> is
  represented by the JSON value it spells.
\<close>

definition get_categories :: "string \<Rightarrow> string list option" where
  "get_categories name =
     (let p = (if name = [] then ''standard'' else name) in
      if p = ''essential'' \<or> p = ''standard'' \<or> p = ''core'' then Some [''core'', ''openagents-repo'']
      else if p = ''extended'' \<or> p = ''all'' \<or> p = ''full''
        then Some [''core'', ''openagents-repo'', ''development'', ''ui'', ''content-creation'', ''data'',
                   ''product'', ''learning'', ''project'', ''project-intelligence'']
      else None)"

record ShFlags =
  sh_profile :: string
  sh_global :: bool
  sh_force :: bool
  sh_dry_run :: bool

definition sh_usage :: "level \<times> part list" where
  "sh_usage = (L_plain, [Str ''Usage: install-context.sh [OPTIONS]''])"

fun sh_parse :: "string list \<Rightarrow> ShFlags \<Rightarrow> world \<Rightarrow> (nat + ShFlags) \<times> world" where
  "sh_parse [] fl w = (Inr fl, w)"
| "sh_parse (arg # args) fl w =
     (if prefix ''--profile='' arg then sh_parse args (fl\<lparr>sh_profile := drop (length ''--profile='') arg\<rparr>) w
      else if arg = ''--global'' then sh_parse args (fl\<lparr>sh_global := True\<rparr>) w
      else if arg = ''--force'' then sh_parse args (fl\<lparr>sh_force := True\<rparr>) w
      else if arg = ''--dry-run'' then sh_parse args (fl\<lparr>sh_dry_run := True\<rparr>) w
      else if arg = ''--help'' \<or> arg = ''-h'' then (Inl 0, says [sh_usage] w)
      else (Inl 0, says [(L_error, [Str ''Unknown option: '', Str arg]), (L_plain, []), sh_usage] w))"











section \<open>Context discovery (skills/context-discovery/context-discovery-protocol.md)\<close>

text \<open>
  The resolver is given as a protocol that the context-scout agent follows step by step;
  the definitions below transcribe its Steps 1 to 4 and its return format. The return
  format names no \<open>source\<close> for the global candidate (row 4 of Step 2); it is
  \<open>Discovery_global\<close> here.
\<close>

datatype discovery_source =
    Oac_json
  | Discovery_claude
  | Discovery_context
  | Discovery_opencode
  | Discovery_global
  | Discovery_plugin
  | No_source

record DiscoveryResult =
  context_root :: "string option"
  source :: discovery_source
  write_oac_json :: bool
  stale_warning :: bool

definition navigation_md :: "world \<Rightarrow> path \<Rightarrow> bool" where
  "navigation_md w root = is_file w (root @ [''navigation.md''])"

text \<open>Step 1: \<^verbatim>\<open>context.root\<close> of \<^verbatim>\<open>.oac.json\<close> at the project root, when it can be read.\<close>

definition pointer_root :: "env \<Rightarrow> world \<Rightarrow> string option" where
  "pointer_root en w =
     (case readFileSync w (project_oac_json en) of
        Inr (Json (JObj kvs)) \<Rightarrow>
          (case map_of kvs ''context'' of
             Some (JObj ctx) \<Rightarrow> (case map_of ctx ''root'' of Some (JStr r) \<Rightarrow> Some r | _ \<Rightarrow> None)
           | _ \<Rightarrow> None)
      | _ \<Rightarrow> None)"

definition expand_root :: "env \<Rightarrow> string \<Rightarrow> path" where
  "expand_root en r =
     (if r = ''~'' \<or> take 2 r = ''~/'' then path_join (homedir en) (drop 1 r) else resolve (cwd en) r)"

text \<open>Step 2: the candidates in their order, with Step 3's table in the last column.\<close>

definition discovery_chain :: "env \<Rightarrow> (string \<times> path \<times> discovery_source \<times> bool) list" where
  "discovery_chain en =
     [(''.claude/context'', cwd en @ [''.claude'', ''context''], Discovery_claude, True),
      (''context'', cwd en @ [''context''], Discovery_context, True),
      (''.opencode/context'', cwd en @ [''.opencode'', ''context''], Discovery_opencode, True),
      (''~/.claude/context'', homedir en @ [''.claude'', ''context''], Discovery_global, False),
      (render (PLUGIN_ROOT en @ [''context'']), PLUGIN_ROOT en @ [''context''], Discovery_plugin, False)]"

definition run_chain :: "env \<Rightarrow> world \<Rightarrow> bool \<Rightarrow> DiscoveryResult" where
  "run_chain en w warn =
     (case find (\<lambda>(root, dir, src, project_local). navigation_md w dir) (discovery_chain en) of
        Some (root, dir, src, project_local) \<Rightarrow>
          \<lparr> context_root = Some root, source = src, write_oac_json = project_local, stale_warning = warn \<rparr>
      | None \<Rightarrow>
          \<lparr> context_root = None, source = No_source, write_oac_json = False, stale_warning = warn \<rparr>)"

definition discover :: "env \<Rightarrow> world \<Rightarrow> DiscoveryResult" where
  "discover en w =
     (if existsSync w (project_oac_json en) then
        (case pointer_root en w of
           Some r \<Rightarrow>
             if navigation_md w (expand_root en r)
             then \<lparr> context_root = Some r, source = Oac_json, write_oac_json = False, stale_warning = False \<rparr>
             else run_chain en w True
         | None \<Rightarrow> run_chain en w True)
      else run_chain en w False)"

section \<open>Observations of a run and orderings used in the statements\<close>

text \<open>
  \<open>trace P w\<close> is the sub-sequence of the recorded calls that satisfy \<open>P\<close>;
  \<open>quiet P w w'\<close> says that a run from \<open>w\<close> to \<open>w'\<close> added no such call, and
  \<open>node_same q w w'\<close> that the path \<open>q\<close> holds in \<open>w'\<close> what it held in \<open>w\<close>.
\<close>

definition trace :: "(event \<Rightarrow> bool) \<Rightarrow> world \<Rightarrow> event list" where
  "trace P w = filter P (calls w)"


definition is_sparse_set :: "event \<Rightarrow> bool" where
  "is_sparse_set e = (case e of Git_sparse_set t ps \<Rightarrow> True | _ \<Rightarrow> False)"

definition quiet :: "(event \<Rightarrow> bool) \<Rightarrow> world \<Rightarrow> world \<Rightarrow> bool" where
  "quiet P w w' = (trace P w' = trace P w)"


definition registry_url :: string where
  "registry_url = ''https://raw.githubusercontent.com/darrenhinde/OpenAgentsControl/main/registry.json''"

definition github_main :: FetchRegistryOptions where
  "github_main = \<lparr> fo_source = Some Github, fo_repository = Some GITHUB_REPO,
                    fo_branch = Some GITHUB_BRANCH, fo_localPath = None \<rparr>"

definition manifest_context :: "json \<Rightarrow> json option" where
  "manifest_context m = (case m of JObj kvs \<Rightarrow> map_of kvs ''context'' | _ \<Rightarrow> None)"

definition fetched_only :: "world \<Rightarrow> world \<Rightarrow> bool" where
  "fetched_only w w' = (fsys w' = fsys w \<and> calls w' = calls w @ [Fetch registry_url])"

definition banner :: "InstallOptions \<Rightarrow> (level \<times> part list) list" where
  "banner options =
     [(L_header, [Str ''Context Installer'']),
      (L_info, [Str ''Profile: '', Str (profile_name (dflt P_essential (profile options)))]),
      (L_info, [Str ''Repository: '', Str GITHUB_REPO]),
      (L_info, [Str ''Branch: '', Str GITHUB_BRANCH]),
      (L_info, [Str ''Dry run: '', Flag (dflt False (dryRun options))]),
      (L_plain, []),
      (L_info, [Str ''Fetching registry from GitHub...''])]"

definition js_defaults :: Flags where
  "js_defaults = \<lparr> profileName = ''standard'', customCategories = [], isGlobal = False,
                    forced = False, dry = False \<rparr>"


text \<open>
  The cumulative ordering of the profiles, and the part of a path before its last
  separator, both as the specification words them.
\<close>

fun profile_rank :: "Profile \<Rightarrow> nat" where
  "profile_rank P_essential = 0"
| "profile_rank P_standard = 1"
| "profile_rank P_extended = 2"
| "profile_rank P_specialized = 3"
| "profile_rank P_all = 4"

definition precedes :: "Profile \<Rightarrow> Profile \<Rightarrow> bool" where
  "precedes a b = (profile_rank a < profile_rank b)"

definition parent_prefix :: "string \<Rightarrow> string" where
  "parent_prefix p = rev (tl (dropWhile (\<lambda>c. c \<noteq> CHR ''/'') (rev p)))"

subsection \<open>Properties named in the statements\<close>




definition js_accepts :: "string \<Rightarrow> bool" where
  "js_accepts name = (PROFILE_MAP_get name \<noteq> Undefined)"

definition core_list :: "string list" where
  "core_list = [''core'', ''openagents-repo'']"

definition full_list :: "string list" where
  "full_list = [''core'', ''openagents-repo'', ''development'', ''ui'', ''content-creation'', ''data'',
                ''product'', ''learning'', ''project'', ''project-intelligence'']"



definition already_installed :: "level \<times> part list" where
  "already_installed = (L_warning, [Str ''Context already installed. Use --force to reinstall.''])"

definition js_already_installed :: "bool \<Rightarrow> level \<times> part list" where
  "js_already_installed g =
     (L_warning, [Str ''Context already installed at '', Str (scopeLabel g), Str ''. Use --force to reinstall.''])"

section \<open>A sample registry, environment and file system\<close>

definition demo_doc :: json where
  "demo_doc =
     JObj [(''version'', JStr ''2.0.0''),
           (''schema_version'', JStr ''1''),
           (''repository'', JStr ''darrenhinde/OpenAgentsControl''),
           (''categories'', JObj [(''essential'', JStr ''Essential''), (''core'', JStr ''Core''),
                                 (''extended'', JStr ''Extended'')]),
           (''components'', JObj [(''contexts'',
              JArr [JObj [(''id'', JStr ''core-standards''), (''name'', JStr ''Core standards''),
                          (''type'', JStr ''context''),
                          (''path'', JStr ''.opencode/context/core/standards/code.md''),
                          (''category'', JStr ''core'')],
                    JObj [(''id'', JStr ''readme''), (''name'', JStr ''Readme''),
                          (''type'', JStr ''context''),
                          (''path'', JStr ''README.md''),
                          (''category'', JStr ''essential'')],
                    JObj [(''id'', JStr ''ui-patterns''), (''name'', JStr ''UI patterns''),
                          (''type'', JStr ''context''),
                          (''path'', JStr ''.opencode/context/ui/patterns.md''),
                          (''category'', JStr ''extended'')]])])]"

definition demo_tree :: "(path \<times> node) list" where
  "demo_tree =
     [([''.opencode''], Dir),
      ([''.opencode'', ''context''], Dir),
      ([''.opencode'', ''context'', ''core''], Dir),
      ([''.opencode'', ''context'', ''core'', ''standards''], Dir),
      ([''.opencode'', ''context'', ''core'', ''standards'', ''code.md''], File (Raw ''# Code'')),
      ([''.opencode'', ''context'', ''navigation.md''], File (Raw ''# Navigation''))]"

definition demo_env :: env where
  "demo_env = \<lparr> CLAUDE_PLUGIN_ROOT = Some [''proj'', ''plugin''], cwd = [''proj''], homedir = [''home''],
     tmpdir = [''tmp''], tmp_name = ''a1b2c3'', git_available = True,
     http_get = (\<lambda>url. Response True ''OK'' (Some demo_doc)), clone_ok = True,
     clone_tree = [([''.git''], Dir)], sparse_ok = (\<lambda>ps. True), sparse_tree = (\<lambda>ps. demo_tree),
     rev_parse_out = Some ''0123abc'', cp_ok = True,
     now = ''2026-01-01T00:00:00.000Z'', lib_message = (\<lambda>e. ''command failed'') \<rparr>"

definition demo_world :: world where
  "demo_world = \<lparr> fsys = [([''proj''], Dir), ([''proj'', ''plugin''], Dir), ([''home''], Dir), ([''tmp''], Dir)],
                  calls = [], console = [] \<rparr>"

definition demo_options :: InstallOptions where
  "demo_options = \<lparr> profile = Some P_essential, customComponents = None, dryRun = None, force = None,
                    verbose = None \<rparr>"

definition demo_component :: "string \<Rightarrow> string \<Rightarrow> string \<Rightarrow> string \<Rightarrow> Component" where
  "demo_component i n p c =
     \<lparr> c_id = i, c_name = n, c_type = ''context'', c_path = p, c_description = None, c_tags = None,
       c_dependencies = None, c_category = c, c_files = None, c_aliases = None, c_version = None \<rparr>"

definition demo_registry :: Registry where
  "demo_registry =
     \<lparr> r_version = ''2.0.0'', r_schema_version = ''1'', r_repository = ''darrenhinde/OpenAgentsControl'',
       r_categories = [(''essential'', ''Essential''), (''core'', ''Core''), (''extended'', ''Extended'')],
       r_components = \<lparr> agents = None, subagents = None, commands = None, tools = None, plugins = None,
         skills = None,
         contexts = Some [demo_component ''core-standards'' ''Core standards''
                            ''.opencode/context/core/standards/code.md'' ''core'',
                          demo_component ''readme'' ''Readme'' ''README.md'' ''essential'',
                          demo_component ''ui-patterns'' ''UI patterns''
                            ''.opencode/context/ui/patterns.md'' ''extended''],
         config = None \<rparr> \<rparr>"

subsection \<open>Further sample registries and file systems\<close>



definition pointed_world :: world where
  "pointed_world =
     \<lparr> fsys = [([''proj''], Dir),
                ([''proj'', ''.oac.json''], File (Json (oacConfig ''docs/standards''))),
                ([''proj'', ''docs''], Dir),
                ([''proj'', ''docs'', ''standards''], Dir),
                ([''proj'', ''docs'', ''standards'', ''navigation.md''], File (Raw ''# Standards'')),
                ([''proj'', ''.claude''], Dir),
                ([''proj'', ''.claude'', ''context''], Dir),
                ([''proj'', ''.claude'', ''context'', ''navigation.md''], File (Raw ''# Context''))],
       calls = [], console = [] \<rparr>"

definition installed_world :: world where
  "installed_world =
     \<lparr> fsys = [([''proj''], Dir), ([''proj'', ''plugin''], Dir),
                ([''proj'', ''plugin'', ''.context-manifest.json''],
                 File (Json (make_manifest demo_env P_essential [] ''0123abc'' []))),
                ([''proj'', ''.claude''], Dir),
                ([''proj'', ''.claude'', ''.context-manifest.json''],
                 File (Json (make_manifest demo_env P_essential [] ''0123abc'' []))),
                ([''home''], Dir), ([''tmp''], Dir)],
       calls = [], console = [] \<rparr>"


section \<open>Auxiliary lemmas\<close>

subsection \<open>Observations of a run\<close>

lemma world_simps:
  "fsys (say l ps w) = fsys w" "calls (say l ps w) = calls w"
  "fsys (says ls w) = fsys w" "calls (says ls w) = calls w"
  "fsys (say_if b l ps w) = fsys w" "calls (say_if b l ps w) = calls w"
  "fsys (call e w) = fsys w" "calls (call e w) = calls w @ [e]"
  "existsSync (say l ps w) p = existsSync w p"
  "existsSync (says ls w) p = existsSync w p"
  "existsSync (say_if b l ps w) p = existsSync w p"
  "readFileSync (say l ps w) p = readFileSync w p"
  "is_file (say l ps w) p = is_file w p"
  "is_file (says ls w) p = is_file w p"
  "is_dir (say l ps w) p = is_dir w p"
  "is_dir (says ls w) p = is_dir w p"
  by (simp_all add: say_def says_def say_if_def call_def existsSync_def readFileSync_def is_file_def
        is_dir_def)

lemma trace_simps:
  "trace P (say l ps w) = trace P w"
  "trace P (says ls w) = trace P w"
  "trace P (say_if b l ps w) = trace P w"
  "trace P (call e w) = trace P w @ (if P e then [e] else [])"
  "trace P (w\<lparr>fsys := fs\<rparr>) = trace P w"
  by (simp_all add: trace_def world_simps)

lemma thenE_pres:
  assumes "Q (snd r)" "\<And>a w'. Q w' \<Longrightarrow> Q (snd (f a w'))"
  shows "Q (snd (thenE r f))"
  using assms by (cases r) (auto simp: thenE_def split: sum.splits)

lemma thenE_InrE:
  assumes "thenE r f = (Inr b, w')"
  obtains a w1 where "r = (Inr a, w1)" "f a w1 = (Inr b, w')"
  using assms by (cases r) (auto simp: thenE_def split: sum.splits)

lemma thenE_Inr: "r = (Inr a, w1) \<Longrightarrow> thenE r f = f a w1"
  by (simp add: thenE_def)

lemma thenE_Inl: "r = (Inl e, w1) \<Longrightarrow> thenE r f = (Inl e, w1)"
  by (simp add: thenE_def)

subsection \<open>What each file-system and git call leaves alone\<close>

lemma map_of_filter_key:
  "map_of (filter (\<lambda>(p, n). Q p) fs) q = (if Q q then map_of fs q else None)"
  by (induction fs) auto

lemma map_of_overlay:
  "map_of (overlay new fs) q = (case map_of new q of Some n \<Rightarrow> Some n | None \<Rightarrow> map_of fs q)"
  by (cases "map_of new q") (simp_all add: overlay_def map_add_def map_of_filter_key)





lemma rmSync_gone: "d \<noteq> [] \<Longrightarrow> node_at (fsys (rmSync d w)) d = None"
  by (simp add: rmSync_def node_at_def map_of_filter_key world_simps)



lemma writeFileSync_node_same:
  "fst (writeFileSync p c w) = Inr u \<Longrightarrow> node_at (fsys (snd (writeFileSync p c w))) p = Some (File c)"
  by (auto simp: writeFileSync_def Let_def world_simps node_at_def map_of_overlay is_dir_def
           split: if_splits)






lemma prim_trace:
  "trace P (rmSync d w) = trace P w @ (if P (Rm d) then [Rm d] else [])"
  "trace P (snd (mkdirSync d w)) = trace P w @ (if P (Mkdir d) then [Mkdir d] else [])"
  "trace P (snd (writeFileSync p c w)) = trace P w @ (if P (WriteFile p c) then [WriteFile p c] else [])"
  "trace P (snd (git_clone en r b t w)) = trace P w @ (if P (Git_clone r b t) then [Git_clone r b t] else [])"
  "trace P (snd (git_sparse_checkout_set en t ps w))
     = trace P w @ (if P (Git_sparse_set t ps) then [Git_sparse_set t ps] else [])"
  "trace P (snd (git_rev_parse en t w)) = trace P w @ (if P (Git_rev_parse t) then [Git_rev_parse t] else [])"
  "trace P (snd (cp_r en src dst w)) = trace P w @ (if P (Cp src dst) then [Cp src dst] else [])"
  "trace P (snd (mkdtempSync d w)) = trace P w @ (if P (Mkdtemp d) then [Mkdtemp d] else [])"
  by (simp_all add: rmSync_def mkdirSync_def writeFileSync_def git_clone_def git_sparse_checkout_set_def
        git_rev_parse_def cp_r_def mkdtempSync_def Let_def trace_simps split: option.splits)

subsection \<open>Preservation rules\<close>






lemma quiet_thenE:
  assumes "quiet P w (snd r)" "\<And>a w'. quiet P w w' \<Longrightarrow> quiet P w (snd (f a w'))"
  shows "quiet P w (snd (thenE r f))"
  using assms by (rule thenE_pres)

lemma quiet_if:
  "(b \<Longrightarrow> quiet P w (snd x)) \<Longrightarrow> (\<not> b \<Longrightarrow> quiet P w (snd y)) \<Longrightarrow> quiet P w (snd (if b then x else y))"
  by simp


lemma quiet_log:
  "quiet P w w' \<Longrightarrow> quiet P w (say l ps w')"
  "quiet P w w' \<Longrightarrow> quiet P w (says ls w')"
  "quiet P w w' \<Longrightarrow> quiet P w (say_if b l ps w')"
  by (simp_all add: quiet_def trace_simps)

lemma quiet_prim:
  "quiet P w w' \<Longrightarrow> \<not> P (Rm d) \<Longrightarrow> quiet P w (rmSync d w')"
  "quiet P w w' \<Longrightarrow> \<not> P (Mkdir d) \<Longrightarrow> quiet P w (snd (mkdirSync d w'))"
  "quiet P w w' \<Longrightarrow> \<not> P (WriteFile p c) \<Longrightarrow> quiet P w (snd (writeFileSync p c w'))"
  "quiet P w w' \<Longrightarrow> \<not> P (Git_clone r b t) \<Longrightarrow> quiet P w (snd (git_clone en r b t w'))"
  "quiet P w w' \<Longrightarrow> \<not> P (Git_sparse_set t ps) \<Longrightarrow> quiet P w (snd (git_sparse_checkout_set en t ps w'))"
  "quiet P w w' \<Longrightarrow> \<not> P (Git_rev_parse t) \<Longrightarrow> quiet P w (snd (git_rev_parse en t w'))"
  "quiet P w w' \<Longrightarrow> \<not> P (Cp src dst) \<Longrightarrow> quiet P w (snd (cp_r en src dst w'))"
  "quiet P w w' \<Longrightarrow> \<not> P (Mkdtemp d) \<Longrightarrow> quiet P w (snd (mkdtempSync d w'))"
  by (simp_all add: quiet_def prim_trace)


lemma is_sparse_set_simps:
  "is_sparse_set (Git_sparse_set t ps)"
  "\<not> is_sparse_set (Rm d)" "\<not> is_sparse_set (Mkdir d)" "\<not> is_sparse_set (Git_clone r b t)"
  "\<not> is_sparse_set (WriteFile p c)" "\<not> is_sparse_set (Git_rev_parse t)"
  "\<not> is_sparse_set (Cp src dst)" "\<not> is_sparse_set (Mkdtemp d)" "\<not> is_sparse_set (Fetch u)"
  by (simp_all add: is_sparse_set_def)

subsection \<open>git-sparse.ts\<close>



lemma snd_sparseClone: "snd (sparseClone en r b ps t v w) = snd (sparseClone_try en r b ps t v w)"
  by (cases "sparseClone_try en r b ps t v w") (auto simp: sparseClone_def split: sum.splits)

lemma sparseClone_success:
  "clone_success (fst (sparseClone en r b ps t v w))
     \<longleftrightarrow> (\<exists>c. fst (sparseClone_try en r b ps t v w) = Inr c)"
  by (cases "sparseClone_try en r b ps t v w") (auto simp: sparseClone_def split: sum.splits)

lemma sparseClone_try_sparse:
  assumes "fst (sparseClone_try en r b ps t v w) = Inr c"
  shows "trace is_sparse_set (snd (sparseClone_try en r b ps t v w)) = trace is_sparse_set w @ [Git_sparse_set t ps]"
proof -
  define w1 where "w1 = (if existsSync w t then rmSync t w else w)"
  define m where "m = (if \<not> existsSync w1 (butlast t) then mkdirSync (butlast t) w1 else (Inr (), w1))"
  have t1: "trace is_sparse_set w1 = trace is_sparse_set w"
    by (simp add: w1_def prim_trace is_sparse_set_simps)
  have t2: "trace is_sparse_set (snd m) = trace is_sparse_set w"
    using t1 by (simp add: m_def prim_trace is_sparse_set_simps)
  obtain a w2 where m: "m = (a, w2)" by (cases m)
  have eq: "sparseClone_try en r b ps t v w = thenE m (\<lambda>_ w2.
         thenE (git_clone en r (Some b) t
                  (say_if v L_plain [Str ''Cloning '', Str r, Str ''...''] w2)) (\<lambda>_ w3.
         thenE (git_sparse_checkout_set en t ps
                  (say_if v L_plain [Str ''Configuring sparse checkout...''] w3)) (\<lambda>_ w4.
         thenE (git_rev_parse en t w4) (\<lambda>out w5.
           (Inr (trim out), say_if v L_plain [Str ''Downloaded commit: '', Str (trim out)] w5)))))"
    by (simp add: sparseClone_try_def Let_def w1_def m_def)
  from assms obtain u3 w3 u4 w4 out w5 where
    s3: "git_clone en r (Some b) t (say_if v L_plain [Str ''Cloning '', Str r, Str ''...''] w2) = (Inr u3, w3)"
    and s4: "git_sparse_checkout_set en t ps (say_if v L_plain [Str ''Configuring sparse checkout...''] w3) = (Inr u4, w4)"
    and s5: "git_rev_parse en t w4 = (Inr out, w5)"
    and fin: "snd (sparseClone_try en r b ps t v w) = say_if v L_plain [Str ''Downloaded commit: '', Str (trim out)] w5"
    unfolding eq m
    by (auto simp: thenE_def split: sum.splits prod.splits)
  have "trace is_sparse_set w3 = trace is_sparse_set w"
    using prim_trace(4)[of is_sparse_set en r "Some b" t "say_if v L_plain [Str ''Cloning '', Str r, Str ''...''] w2"]
      t2 m s3 by (simp add: trace_simps is_sparse_set_simps)
  moreover have "trace is_sparse_set w4 = trace is_sparse_set w3 @ [Git_sparse_set t ps]"
    using prim_trace(5)[of is_sparse_set en t ps "say_if v L_plain [Str ''Configuring sparse checkout...''] w3"]
      s4 by (simp add: trace_simps is_sparse_set_simps)
  moreover have "trace is_sparse_set w5 = trace is_sparse_set w4"
    using prim_trace(6)[of is_sparse_set en t w4] s5 by (simp add: is_sparse_set_simps)
  ultimately show ?thesis using fin by (simp add: trace_simps)
qed


lemma copyFiles_quiet:
  assumes "quiet P w w'" "\<not> P (Mkdir d)" "\<not> P (Cp s d)"
  shows "quiet P w (snd (copyFiles en s d v w'))"
  unfolding copyFiles_def
  using assms
  by (intro quiet_thenE quiet_if) (simp_all add: quiet_log quiet_prim)


lemma cleanup_quiet: "quiet P w w' \<Longrightarrow> \<not> P (Rm d) \<Longrightarrow> quiet P w (cleanup d v w')"
  by (simp add: cleanup_def quiet_prim quiet_log)

lemma verify_installation_frame:
  "fsys (verify_installation en v cs w) = fsys w" "calls (verify_installation en v cs w) = calls w"
  by (simp_all add: verify_installation_def Let_def world_simps)

subsection \<open>install-context.ts\<close>


lemma download_and_install_InrE:
  assumes "download_and_install en prof custom verb comps w = (Inr r, w')"
  obtains ls1 cr w2 ls2 w3 ls3 w4 ls4 w5 where
    "sparseClone en GITHUB_REPO GITHUB_BRANCH (getUniquePaths comps) (tempDir en) verb (says ls1 w) = (cr, w2)"
    "clone_success cr"
    "copyFiles en (path_join (tempDir en) CONTEXT_SOURCE_PATH) (CONTEXT_DIR en) verb (says ls2 w2) = (Inr (), w3)"
    "writeFileSync (MANIFEST_FILE en) (Json (make_manifest en prof custom (commit cr) comps)) (says ls3 w3)
       = (Inr (), w4)"
    "ensure_oac_json en (says ls4 w4) = (Inr (), w5)"
    "r = \<lparr> success = True, manifest = make_manifest en prof custom (commit cr) comps, errors = None \<rparr>"
    "w' = verify_installation en verb comps (cleanup (tempDir en) verb (say L_plain [] w5))"
proof -
  let ?ls1 = "(if verb
               then [(L_info, [Str ''Sparse checkout paths:''])]
                    @ map (\<lambda>p. (L_plain, [Str ''  - '', Str p])) (getUniquePaths comps) @ [(L_plain, [])]
               else [])
              @ [(L_info, [Str ''Downloading context files...''])]"
  obtain cr w2 where sc:
    "sparseClone en GITHUB_REPO GITHUB_BRANCH (getUniquePaths comps) (tempDir en) verb (says ?ls1 w) = (cr, w2)"
    by (cases "sparseClone en GITHUB_REPO GITHUB_BRANCH (getUniquePaths comps) (tempDir en) verb (says ?ls1 w)")
  have ok: "clone_success cr"
    using assms sc by (auto simp: download_and_install_def Let_def split: if_splits)
  from assms sc ok have chain:
    "thenE (copyFiles en (path_join (tempDir en) CONTEXT_SOURCE_PATH) (CONTEXT_DIR en) verb
                    (says [(L_success, [Str ''Files downloaded successfully'']), (L_plain, []),
                           (L_info, [Str ''Copying files to context directory...''])] w2)) (\<lambda>_ w3.
           thenE (writeFileSync (MANIFEST_FILE en)
                    (Json (make_manifest en prof custom (commit cr) comps))
                    (says [(L_success, [Str ''Files copied to: '', Str (render (CONTEXT_DIR en))]), (L_plain, []),
                           (L_info, [Str ''Creating manifest...''])] w3)) (\<lambda>_ w4.
           thenE (ensure_oac_json en
                    (says [(L_success, [Str ''Manifest created: '', Str (render (MANIFEST_FILE en))]),
                           (L_plain, [])] w4)) (\<lambda>_ w5.
             (Inr \<lparr> success = True,
                    manifest = make_manifest en prof custom (commit cr) comps,
                    errors = None \<rparr>,
              verify_installation en verb comps
                (cleanup (tempDir en) verb (say L_plain [] w5)))))) = (Inr r, w')"
    by (simp add: download_and_install_def Let_def)
  from chain obtain u3 w3 where s3: "copyFiles en (path_join (tempDir en) CONTEXT_SOURCE_PATH) (CONTEXT_DIR en) verb
                    (says [(L_success, [Str ''Files downloaded successfully'']), (L_plain, []),
                           (L_info, [Str ''Copying files to context directory...''])] w2) = (Inr u3, w3)"
    and c3: "thenE (writeFileSync (MANIFEST_FILE en)
                    (Json (make_manifest en prof custom (commit cr) comps))
                    (says [(L_success, [Str ''Files copied to: '', Str (render (CONTEXT_DIR en))]), (L_plain, []),
                           (L_info, [Str ''Creating manifest...''])] w3)) (\<lambda>_ w4.
           thenE (ensure_oac_json en
                    (says [(L_success, [Str ''Manifest created: '', Str (render (MANIFEST_FILE en))]),
                           (L_plain, [])] w4)) (\<lambda>_ w5.
             (Inr \<lparr> success = True,
                    manifest = make_manifest en prof custom (commit cr) comps,
                    errors = None \<rparr>,
              verify_installation en verb comps
                (cleanup (tempDir en) verb (say L_plain [] w5))))) = (Inr r, w')"
    by (rule thenE_InrE)
  from c3 obtain u4 w4 where s4: "writeFileSync (MANIFEST_FILE en)
                    (Json (make_manifest en prof custom (commit cr) comps))
                    (says [(L_success, [Str ''Files copied to: '', Str (render (CONTEXT_DIR en))]), (L_plain, []),
                           (L_info, [Str ''Creating manifest...''])] w3) = (Inr u4, w4)"
    and c4: "thenE (ensure_oac_json en
                    (says [(L_success, [Str ''Manifest created: '', Str (render (MANIFEST_FILE en))]),
                           (L_plain, [])] w4)) (\<lambda>_ w5.
             (Inr \<lparr> success = True,
                    manifest = make_manifest en prof custom (commit cr) comps,
                    errors = None \<rparr>,
              verify_installation en verb comps
                (cleanup (tempDir en) verb (say L_plain [] w5)))) = (Inr r, w')"
    by (rule thenE_InrE)
  from c4 obtain u5 w5 where s5: "ensure_oac_json en
                    (says [(L_success, [Str ''Manifest created: '', Str (render (MANIFEST_FILE en))]),
                           (L_plain, [])] w4) = (Inr u5, w5)"
    and c5: "(Inr \<lparr> success = True,
                    manifest = make_manifest en prof custom (commit cr) comps,
                    errors = None \<rparr>,
              verify_installation en verb comps
                (cleanup (tempDir en) verb (say L_plain [] w5))) = (Inr r, w')"
    by (auto simp: thenE_def split: sum.splits prod.splits)
  show ?thesis
    using that[OF sc ok] s3 s4 s5 c5 by auto
qed

lemma fetchRegistry_github:
  "fsys (snd (fetchRegistry en github_main w)) = fsys w"
  "calls (snd (fetchRegistry en github_main w)) = calls w @ [Fetch registry_url]"
  "console (snd (fetchRegistry en github_main w)) = console w"
  "fst (fetchRegistry en github_main w) = fst (fetchRegistry en github_main w0)"
  by (simp_all add: fetchRegistry_def github_main_def dflt_def Let_def registry_url_def GITHUB_REPO_def
        GITHUB_BRANCH_def call_def split: http_result.splits option.splits)

lemma select_components_frame:
  "fsys (snd (select_components r p c w)) = fsys w"
  "calls (snd (select_components r p c w)) = calls w"
  "fst (select_components r p c w) = fst (select_components r p c w0)"
  by (simp_all add: select_components_def world_simps)

lemma manifest_context_make:
  "manifest_context (make_manifest en p c sha comps) = Some (JArr (map (manifest_component en) comps))"
  by (simp add: manifest_context_def make_manifest_def)

lemma installContext_Inr:
  "installContext_try en options w = (Inr r, w') \<Longrightarrow> installContext en options w = (r, w')"
  by (simp add: installContext_def)

lemma installContext_Inl:
  "installContext_try en options w = (Inl e, w') \<Longrightarrow> \<not> success (fst (installContext en options w))
     \<and> fsys (snd (installContext en options w)) = fsys w' \<and> calls (snd (installContext en options w)) = calls w'"
  by (simp add: installContext_def world_simps)

lemma download_and_install_success: 
  "download_and_install en p c v comps w = (Inr r, w') \<Longrightarrow> success r"
  by (erule download_and_install_InrE) simp

lemma report_and_install_success:
  "report_and_install en p c v d comps w = (Inr r, w') \<Longrightarrow> success r"
  by (auto simp: report_and_install_def Let_def download_and_install_success split: if_splits)

lemma select_and_install_success:
  "select_and_install en p c v d reg w = (Inr r, w') \<Longrightarrow> success r"
  unfolding select_and_install_def
  by (erule thenE_InrE) (rule report_and_install_success)

lemma installContext_try_success:
  "installContext_try en options w = (Inr r, w') \<Longrightarrow> success r"
  unfolding installContext_try_def Let_def
  by (auto split: if_splits sum.splits elim!: thenE_InrE dest: select_and_install_success)

lemma installContext_success_iff:
  "success (fst (installContext en options w)) \<longleftrightarrow> (\<exists>r. fst (installContext_try en options w) = Inr r)"
proof (cases "installContext_try en options w")
  case (Pair a w')
  then show ?thesis
    by (cases a) (auto simp: installContext_def dest: installContext_try_success)
qed

text \<open>The run past the idempotency gate, up to the choice between dry run and download.\<close>

lemma installContext_try_proceedE:
  assumes "installContext_try en options w = (Inr r, w')"
    and "\<not> (existsSync w (MANIFEST_FILE en) \<and> \<not> dflt False (force options))"
  obtains registry comps ls0 w1 ls1 w2 where
    "checkGitAvailable en"
    "fetchRegistry en github_main (says ls0 w) = (Inr registry, w1)"
    "select_components registry (dflt P_essential (profile options)) (dflt [] (customComponents options))
       (says ls1 w1) = (Inr comps, w2)"
    "report_and_install en (dflt P_essential (profile options)) (dflt [] (customComponents options))
       (dflt False (verbose options)) (dflt False (dryRun options)) comps w2 = (Inr r, w')"
proof -
  have git: "checkGitAvailable en"
    using assms by (auto simp: installContext_try_def Let_def split: if_splits)
  from assms git obtain registry w1 ls0 where
    f: "fetchRegistry en github_main (says ls0 w) = (Inr registry, w1)"
    and rest: "select_and_install en (dflt P_essential (profile options)) (dflt [] (customComponents options))
       (dflt False (verbose options)) (dflt False (dryRun options)) registry w1 = (Inr r, w')"
    unfolding installContext_try_def Let_def github_main_def[symmetric]
    by (auto elim!: thenE_InrE split: if_splits)
  from rest obtain comps w2 ls1 where
    s: "select_components registry (dflt P_essential (profile options)) (dflt [] (customComponents options))
          (says ls1 w1) = (Inr comps, w2)"
    and fin: "report_and_install en (dflt P_essential (profile options)) (dflt [] (customComponents options))
       (dflt False (verbose options)) (dflt False (dryRun options)) comps w2 = (Inr r, w')"
    unfolding select_and_install_def
    by (auto elim!: thenE_InrE)
  show ?thesis
    using that[OF git f s fin] .
qed

lemma fetched_only_log:
  "fetched_only w w' \<Longrightarrow> fetched_only w (say l ps w')"
  "fetched_only w w' \<Longrightarrow> fetched_only w (says ls w')"
  by (simp_all add: fetched_only_def world_simps)

lemma report_dry_fetched:
  "fetched_only w w' \<Longrightarrow> fetched_only w (snd (report_and_install en p c v True comps w'))"
  by (simp add: report_and_install_def Let_def fetched_only_log)

lemma select_and_install_dry_fetched:
  assumes "fetched_only w w'"
  shows "fetched_only w (snd (select_and_install en p c v True reg w'))"
  unfolding select_and_install_def
proof (rule thenE_pres)
  show "fetched_only w (snd (select_components reg p c
          (says [(L_success, [Str ''Registry version: '', Str (r_version reg)]),
                 (L_success, [Str ''Context components available: '',
                              Num (length (or_empty (contexts (r_components reg))))]),
                 (L_plain, [])] w')))"
    using assms by (simp add: fetched_only_def select_components_frame world_simps)
next
  fix a w'' assume "fetched_only w w''"
  then show "fetched_only w (snd (report_and_install en p c v True a w''))"
    by (rule report_dry_fetched)
qed

lemma installContext_try_proceed:
  assumes "checkGitAvailable en" "\<not> (existsSync w (MANIFEST_FILE en) \<and> \<not> dflt False (force options))"
  shows "installContext_try en options w
        = thenE (fetchRegistry en github_main (says (banner options) w))
            (select_and_install en (dflt P_essential (profile options)) (dflt [] (customComponents options))
               (dflt False (verbose options)) (dflt False (dryRun options)))"
  using assms by (auto simp add: installContext_try_def Let_def github_main_def banner_def)

lemma installContext_try_dry_frame:
  assumes "dflt False (dryRun options)"
  shows "fsys (snd (installContext_try en options w)) = fsys w
         \<and> (calls (snd (installContext_try en options w)) = calls w
            \<or> calls (snd (installContext_try en options w)) = calls w @ [Fetch registry_url])"
proof (cases "checkGitAvailable en \<and> \<not> (existsSync w (MANIFEST_FILE en) \<and> \<not> dflt False (force options))")
  case False
  then show ?thesis
    by (auto simp: installContext_try_def Let_def world_simps split: sum.splits)
next
  case True
  let ?w0 = "says (banner options) w"
  have eq: "installContext_try en options w
        = thenE (fetchRegistry en github_main ?w0)
            (select_and_install en (dflt P_essential (profile options)) (dflt [] (customComponents options))
               (dflt False (verbose options)) True)"
    using True assms installContext_try_proceed[of en w options] by simp
  have "fetched_only w (snd (installContext_try en options w))"
    unfolding eq
  proof (rule thenE_pres)
    show "fetched_only w (snd (fetchRegistry en github_main ?w0))"
      by (simp add: fetched_only_def fetchRegistry_github world_simps)
  next
    fix a w' assume "fetched_only w w'"
    then show "fetched_only w (snd (select_and_install en (dflt P_essential (profile options))
        (dflt [] (customComponents options)) (dflt False (verbose options)) True a w'))"
      by (rule select_and_install_dry_fetched)
  qed
  then show ?thesis by (simp add: fetched_only_def)
qed

lemma installContext_frame_of_try:
  "fsys (snd (installContext en options w)) = fsys (snd (installContext_try en options w))"
  "calls (snd (installContext en options w)) = calls (snd (installContext_try en options w))"
  by (cases "installContext_try en options w"; cases "fst (installContext_try en options w)";
      simp add: installContext_def world_simps)+

lemma installContext_dry_frame:
  assumes "dflt False (dryRun options)"
  shows "fsys (snd (installContext en options w)) = fsys w"
    and "calls (snd (installContext en options w)) = calls w
         \<or> calls (snd (installContext en options w)) = calls w @ [Fetch registry_url]"
  using installContext_try_dry_frame[OF assms, of en w]
  by (simp_all add: installContext_frame_of_try)

text \<open>A successful download reports the components that a dry run reports.\<close>

lemma report_real_manifest:
  assumes "report_and_install en p c v False comps w = (Inr r, w')"
  shows "manifest_context (manifest r) = Some (JArr (map (manifest_component en) comps))"
proof -
  from assms have "download_and_install en p c v comps
      (says ([(L_success, [Str ''Selected '', Num (length comps), Str '' components''])]
                     @ (if v
                        then [(L_plain, []), (L_info, [Str ''Components to install:''])]
                             @ map (\<lambda>c. (L_plain, [Str ''  - '', Str (c_id c), Str '': '', Str (c_path c)]))
                                   comps
                        else [])
                     @ [(L_plain, [])]) w) = (Inr r, w')"
    by (simp add: report_and_install_def Let_def)
  then show ?thesis
    by (rule download_and_install_InrE) (simp add: manifest_context_make)
qed

lemma installContext_dry_same_selection:
  assumes real: "success (fst (installContext en (options\<lparr>dryRun := Some False\<rparr>) w))"
    and gate: "\<not> (existsSync w (MANIFEST_FILE en) \<and> \<not> dflt False (force options))"
  shows "success (fst (installContext en (options\<lparr>dryRun := Some True\<rparr>) w))
         \<and> manifest_context (manifest (fst (installContext en (options\<lparr>dryRun := Some True\<rparr>) w)))
           = manifest_context (manifest (fst (installContext en (options\<lparr>dryRun := Some False\<rparr>) w)))"
proof -
  let ?real = "options\<lparr>dryRun := Some False\<rparr>" and ?dry = "options\<lparr>dryRun := Some True\<rparr>"
  let ?p = "dflt P_essential (profile options)" and ?c = "dflt [] (customComponents options)"
  let ?v = "dflt False (verbose options)"
  from real obtain r w' where t: "installContext_try en ?real w = (Inr r, w')"
    by (auto simp: installContext_success_iff) (metis prod.collapse)
  have gate': "\<not> (existsSync w (MANIFEST_FILE en) \<and> \<not> dflt False (force ?real))"
    using gate by simp
  from t gate' obtain registry comps ls0 w1 ls1 w2 where
    git: "checkGitAvailable en"
    and f: "fetchRegistry en github_main (says ls0 w) = (Inr registry, w1)"
    and s: "select_components registry ?p ?c (says ls1 w1) = (Inr comps, w2)"
    and d: "report_and_install en ?p ?c ?v False comps w2 = (Inr r, w')"
    by (rule installContext_try_proceedE) (simp_all add: dflt_def)
  have mr: "manifest_context (manifest r) = Some (JArr (map (manifest_component en) comps))"
    using d by (rule report_real_manifest)
  have fr: "\<And>x. fst (fetchRegistry en github_main x) = Inr registry"
    using f fetchRegistry_github(4)[of en _ "says ls0 w"] by simp
  have sr: "\<And>x. fst (select_components registry ?p ?c x) = Inr comps"
    using s select_components_frame(3)[of registry ?p ?c _ "says ls1 w1"] by simp
  let ?w0 = "says (banner ?dry) w"
  have eq: "installContext_try en ?dry w
        = thenE (fetchRegistry en github_main ?w0) (select_and_install en ?p ?c ?v True)"
    using git gate installContext_try_proceed[of en w ?dry] by (simp add: dflt_def)
  obtain x1 where f1: "fetchRegistry en github_main ?w0 = (Inr registry, x1)"
    using fr[of ?w0] by (cases "fetchRegistry en github_main ?w0") simp
  let ?w1 = "says [(L_success, [Str ''Registry version: '', Str (r_version registry)]),
                   (L_success, [Str ''Context components available: '',
                                Num (length (or_empty (contexts (r_components registry))))]),
                   (L_plain, [])] x1"
  obtain x2 where s1: "select_components registry ?p ?c ?w1 = (Inr comps, x2)"
    using sr[of ?w1] by (cases "select_components registry ?p ?c ?w1") simp
  have "fst (installContext_try en ?dry w)
          = Inr \<lparr> success = True, manifest = make_manifest en ?p ?c ''dry-run'' comps, errors = None \<rparr>"
    unfolding eq thenE_Inr[OF f1] select_and_install_def thenE_Inr[OF s1]
    by (simp add: report_and_install_def Let_def)
  then obtain x3 where "installContext_try en ?dry w
          = (Inr \<lparr> success = True, manifest = make_manifest en ?p ?c ''dry-run'' comps, errors = None \<rparr>, x3)"
    by (cases "installContext_try en ?dry w") simp
  then have "fst (installContext en ?dry w)
          = \<lparr> success = True, manifest = make_manifest en ?p ?c ''dry-run'' comps, errors = None \<rparr>"
    by (simp add: installContext_Inr)
  moreover have "fst (installContext en ?real w) = r"
    using t by (simp add: installContext_Inr)
  ultimately show ?thesis using mr by (simp add: manifest_context_make)
qed



lemma ensure_oac_json_present:
  assumes "existsSync w (oacJsonPath en)"
  shows "fsys (snd (ensure_oac_json en w)) = fsys w" "calls (snd (ensure_oac_json en w)) = calls w"
  using assms by (simp_all add: ensure_oac_json_def world_simps)

lemma ensure_oac_json_absent:
  assumes "\<not> existsSync w (oacJsonPath en)" "ensure_oac_json en w = (Inr u, w')"
  shows "node_at (fsys w') (oacJsonPath en) = Some (File (Json (oacConfig (contextRelPath en))))"
    and "calls w' = calls w @ [WriteFile (oacJsonPath en) (Json (oacConfig (contextRelPath en)))]"
proof -
  let ?wr = "writeFileSync (oacJsonPath en) (Json (oacConfig (contextRelPath en))) w"
  from assms obtain u1 w1 where wr: "?wr = (Inr u1, w1)"
    and w': "w' = say L_success [Str ''.oac.json created at project root, context.root = '',
                                  Str (contextRelPath en)] w1"
    by (auto simp: ensure_oac_json_def elim!: thenE_InrE)
  have "node_at (fsys (snd ?wr)) (oacJsonPath en) = Some (File (Json (oacConfig (contextRelPath en))))"
    by (rule writeFileSync_node_same[of _ _ _ u1]) (simp add: wr)
  then show "node_at (fsys w') (oacJsonPath en) = Some (File (Json (oacConfig (contextRelPath en))))"
    by (simp add: wr w' world_simps)
  have "calls (snd ?wr) = calls w @ [WriteFile (oacJsonPath en) (Json (oacConfig (contextRelPath en)))]"
    by (simp add: writeFileSync_def Let_def world_simps)
  then show "calls w' = calls w @ [WriteFile (oacJsonPath en) (Json (oacConfig (contextRelPath en)))]"
    by (simp add: wr w' world_simps)
qed


lemma download_and_install_sparse:
  assumes D: "download_and_install en p c v comps w = (Inr r, w')"
  shows "trace is_sparse_set w' = trace is_sparse_set w @ [Git_sparse_set (tempDir en) (getUniquePaths comps)]"
    and "manifest_context (manifest r) = Some (JArr (map (manifest_component en) comps))"
proof -
  from D obtain ls1 cr w2 ls2 w3 ls3 w4 ls4 w5 where
    sc: "sparseClone en GITHUB_REPO GITHUB_BRANCH (getUniquePaths comps) (tempDir en) v (says ls1 w) = (cr, w2)"
    and ok: "clone_success cr"
    and cf: "copyFiles en (path_join (tempDir en) CONTEXT_SOURCE_PATH) (CONTEXT_DIR en) v (says ls2 w2) = (Inr (), w3)"
    and wm: "writeFileSync (MANIFEST_FILE en) (Json (make_manifest en p c (commit cr) comps)) (says ls3 w3)
       = (Inr (), w4)"
    and eo: "ensure_oac_json en (says ls4 w4) = (Inr (), w5)"
    and r: "r = \<lparr> success = True, manifest = make_manifest en p c (commit cr) comps, errors = None \<rparr>"
    and w': "w' = verify_installation en v comps (cleanup (tempDir en) v (say L_plain [] w5))"
    by (rule download_and_install_InrE)
  show "manifest_context (manifest r) = Some (JArr (map (manifest_component en) comps))"
    by (simp add: r manifest_context_make)
  from ok sc obtain sha where
    "fst (sparseClone_try en GITHUB_REPO GITHUB_BRANCH (getUniquePaths comps) (tempDir en) v (says ls1 w)) = Inr sha"
    using sparseClone_success[of en GITHUB_REPO GITHUB_BRANCH "getUniquePaths comps" "tempDir en" v "says ls1 w"]
    by auto
  from sparseClone_try_sparse[OF this] sc
  have t2: "trace is_sparse_set w2 = trace is_sparse_set w @ [Git_sparse_set (tempDir en) (getUniquePaths comps)]"
    using snd_sparseClone[of en GITHUB_REPO GITHUB_BRANCH "getUniquePaths comps" "tempDir en" v "says ls1 w"]
    by (simp add: trace_simps)
  have t3: "trace is_sparse_set w3 = trace is_sparse_set w2"
    using copyFiles_quiet[of is_sparse_set w2 "says ls2 w2" "CONTEXT_DIR en" "path_join (tempDir en) CONTEXT_SOURCE_PATH" en v]
      cf by (simp add: quiet_def trace_simps is_sparse_set_simps)
  have t4: "trace is_sparse_set w4 = trace is_sparse_set w3"
    using prim_trace(3)[of is_sparse_set "MANIFEST_FILE en" "Json (make_manifest en p c (commit cr) comps)" "says ls3 w3"]
      wm by (simp add: trace_simps is_sparse_set_simps)
  have t5: "trace is_sparse_set w5 = trace is_sparse_set w4"
  proof (cases "existsSync (says ls4 w4) (oacJsonPath en)")
    case True
    then show ?thesis
      using ensure_oac_json_present[of "says ls4 w4" en] eo by (simp add: trace_def world_simps)
  next
    case False
    then show ?thesis
      using ensure_oac_json_absent(2)[of "says ls4 w4" en "()" w5] eo
      by (simp add: trace_def world_simps is_sparse_set_simps)
  qed
  have "trace is_sparse_set w' = trace is_sparse_set w5"
    using cleanup_quiet[of is_sparse_set w5 "say L_plain [] w5" "tempDir en" v]
    by (simp add: w' trace_def verify_installation_frame quiet_def world_simps is_sparse_set_simps)
  with t2 t3 t4 t5 show "trace is_sparse_set w' = trace is_sparse_set w @ [Git_sparse_set (tempDir en) (getUniquePaths comps)]"
    by simp
qed

subsection \<open>install-context.js\<close>

lemma js_parse_frame:
  "fsys (snd (js_parse args fl w)) = fsys w \<and> calls (snd (js_parse args fl w)) = calls w"
  by (induction args fl w rule: js_parse.induct) (simp_all add: world_simps)

lemma js_parse_Inr: "js_parse args fl w = (Inr fl', w') \<Longrightarrow> w' = w"
  by (induction args fl w rule: js_parse.induct) (auto split: if_splits)

lemma js_parse_dry:
  "js_parse args fl w = (Inr fl', w') \<Longrightarrow> dry fl' = (dry fl \<or> ''--dry-run'' \<in> set args)"
  by (induction args fl w rule: js_parse.induct) (auto split: if_splits)

lemma js_parse_forced:
  "js_parse args fl w = (Inr fl', w') \<Longrightarrow> forced fl' = (forced fl \<or> ''--force'' \<in> set args)"
  by (induction args fl w rule: js_parse.induct) (auto split: if_splits)

lemma js_parse_global:
  "js_parse args fl w = (Inr fl', w') \<Longrightarrow> isGlobal fl' = (isGlobal fl \<or> ''--global'' \<in> set args)"
  by (induction args fl w rule: js_parse.induct) (auto split: if_splits)

lemma js_main_parsed:
  "fst (js_parse args js_defaults w) = Inr fl \<Longrightarrow> js_main en args w = js_run en fl w"
  using js_parse_Inr[of args js_defaults w fl "snd (js_parse args js_defaults w)"]
  by (cases "js_parse args js_defaults w") (simp add: js_main_def js_defaults_def)

lemma js_main_unparsed:
  "fst (js_parse args js_defaults w) = Inl code \<Longrightarrow>
     fst (js_main en args w) = code \<and> fsys (snd (js_main en args w)) = fsys w
     \<and> calls (snd (js_main en args w)) = calls w"
  using js_parse_frame[of args js_defaults w]
  by (cases "js_parse args js_defaults w") (simp add: js_main_def js_defaults_def)

lemma js_run_short_circuit:
  assumes "existsSync w (installRoot en (isGlobal fl) @ [''.context-manifest.json''])" "\<not> forced fl"
  shows "fsys (snd (js_run en fl w)) = fsys w" "calls (snd (js_run en fl w)) = calls w"
    "js_categories fl \<noteq> None \<Longrightarrow> fst (js_run en fl w) = 0"
    "js_categories fl \<noteq> None \<Longrightarrow>
       (L_warning, [Str ''Context already installed at '', Str (scopeLabel (isGlobal fl)),
                    Str ''. Use --force to reinstall.'']) \<in> set (console (snd (js_run en fl w)))"
  using assms
  by (auto simp: js_run_def Let_def world_simps says_def split: option.splits prod.splits)

lemma js_run_dry:
  assumes "dry fl"
  shows "fsys (snd (js_run en fl w)) = fsys w" "calls (snd (js_run en fl w)) = calls w"
  using assms
  by (auto simp: js_run_def Let_def world_simps split: option.splits prod.splits)

lemma js_categories_dry: "js_categories (fl\<lparr>dry := b\<rparr>) = js_categories fl"
  by (simp add: js_categories_def split: property.splits)
















subsection \<open>install-context.sh\<close>



lemma sh_parse_frame:
  "fsys (snd (sh_parse args fl w)) = fsys w \<and> calls (snd (sh_parse args fl w)) = calls w"
  by (induction args fl w rule: sh_parse.induct) (simp_all add: world_simps)















subsection \<open>registry-fetcher.ts: directory paths\<close>

lemma split_nonempty: "split sep xs \<noteq> []"
  by (induction xs) (auto split: list.splits)

lemma split_append: "split sep (a @ sep # b) = split sep a @ split sep b"
  by (induction a) (auto split: list.splits simp: split_nonempty)

lemma split_no_sep: "sep \<notin> set w \<Longrightarrow> split sep w = [w]"
  by (induction w) (auto split: list.splits)

lemma join_split: "join [sep] (split sep xs) = xs"
proof (induction xs)
  case Nil
  then show ?case by simp
next
  case (Cons x xs)
  obtain w ws where s: "split sep xs = w # ws"
    using split_nonempty[of sep xs] by (cases "split sep xs") auto
  show ?case
  proof (cases "x = sep")
    case True
    then show ?thesis using Cons s by simp
  next
    case False
    then show ?thesis using Cons s by (cases ws) auto
  qed
qed

lemma dirPath_parent_prefix: "dirPath c = parent_prefix (c_path c)"
proof (cases "CHR ''/'' \<in> set (c_path c)")
  case False
  then have d: "dropWhile (\<lambda>c. c \<noteq> CHR ''/'') (rev (c_path c)) = []"
    by auto
  show ?thesis
    unfolding dirPath_def parent_prefix_def d using False by (simp add: split_no_sep)
next
  case True
  then obtain a b where ab: "c_path c = a @ CHR ''/'' # b" "CHR ''/'' \<notin> set b"
    by (meson split_list_last)
  have "dropWhile (\<lambda>c. c \<noteq> CHR ''/'') (rev b @ CHR ''/'' # rev a) = CHR ''/'' # rev a"
    using ab(2) by (auto simp: dropWhile_append3)
  then show ?thesis using ab
    by (simp add: dirPath_def parent_prefix_def split_append split_no_sep join_split)
qed

lemma dirPath_no_slash: "CHR ''/'' \<notin> set (c_path c) \<Longrightarrow> dirPath c = []"
  by (simp add: dirPath_def split_no_sep)

lemma foldl_set_add_set:
  "set (foldl (\<lambda>paths c. if f c \<noteq> [] then set_add paths (f c) else paths) acc cs)
     = set acc \<union> (f ` set cs - {[]})"
  by (induction cs arbitrary: acc) (auto simp: set_add_def)

lemma foldl_set_add_distinct:
  "distinct acc \<Longrightarrow>
   distinct (foldl (\<lambda>paths c. if f c \<noteq> [] then set_add paths (f c) else paths) acc cs)"
  by (induction cs arbitrary: acc) (auto simp: set_add_def)

lemma foldl_set_add_filter:
  "(\<And>c. \<not> Q c \<Longrightarrow> f c = []) \<Longrightarrow>
   foldl (\<lambda>paths c. if f c \<noteq> [] then set_add paths (f c) else paths) acc (filter Q cs)
     = foldl (\<lambda>paths c. if f c \<noteq> [] then set_add paths (f c) else paths) acc cs"
  by (induction cs arbitrary: acc) auto

lemma getUniquePaths_set:
  "set (getUniquePaths cs) = (\<lambda>c. parent_prefix (c_path c)) ` set cs - {[]}"
  unfolding getUniquePaths_def foldl_set_add_set
  by (simp add: dirPath_parent_prefix)

lemma getUniquePaths_distinct: "distinct (getUniquePaths cs)"
  unfolding getUniquePaths_def by (rule foldl_set_add_distinct) simp

lemma getUniquePaths_slashless:
  "getUniquePaths (filter (\<lambda>c. CHR ''/'' \<in> set (c_path c)) cs) = getUniquePaths cs"
  unfolding getUniquePaths_def
  by (rule foldl_set_add_filter) (simp add: dirPath_no_slash)

subsection \<open>install-context.ts: a successful download as a whole\<close>

lemma installContext_real_successE:
  assumes "success (fst (installContext en options w))" "\<not> dflt False (dryRun options)"
    "\<not> (existsSync w (MANIFEST_FILE en) \<and> \<not> dflt False (force options))"
  obtains registry comps w2 where
    "fst (fetchRegistry en github_main w) = Inr registry"
    "fst (select_components registry (dflt P_essential (profile options))
            (dflt [] (customComponents options)) w) = Inr comps"
    "fsys w2 = fsys w" "calls w2 = calls w @ [Fetch registry_url]"
    "download_and_install en (dflt P_essential (profile options)) (dflt [] (customComponents options))
       (dflt False (verbose options)) comps w2
     = (Inr (fst (installContext en options w)), snd (installContext en options w))"
proof -
  let ?p = "dflt P_essential (profile options)" and ?c = "dflt [] (customComponents options)"
  let ?v = "dflt False (verbose options)"
  from assms(1) obtain r w' where t: "installContext_try en options w = (Inr r, w')"
    by (auto simp: installContext_success_iff) (metis prod.collapse)
  then have ic: "installContext en options w = (r, w')" by (rule installContext_Inr)
  from t assms(3) obtain registry comps ls0 w1 ls1 w2 where
    f: "fetchRegistry en github_main (says ls0 w) = (Inr registry, w1)"
    and s: "select_components registry ?p ?c (says ls1 w1) = (Inr comps, w2)"
    and d: "report_and_install en ?p ?c ?v (dflt False (dryRun options)) comps w2 = (Inr r, w')"
    by (rule installContext_try_proceedE)
  have f1: "fst (fetchRegistry en github_main w) = Inr registry"
    using f fetchRegistry_github(4)[of en w "says ls0 w"] by simp
  have s1: "fst (select_components registry ?p ?c w) = Inr comps"
    using s select_components_frame(3)[of registry ?p ?c w "says ls1 w1"] by simp
  have fr1: "fsys w1 = fsys w" "calls w1 = calls w @ [Fetch registry_url]"
    using fetchRegistry_github(1,2)[of en "says ls0 w"] f by (simp_all add: world_simps)
  have fr2: "fsys w2 = fsys w" "calls w2 = calls w @ [Fetch registry_url]"
    using select_components_frame(1,2)[of registry ?p ?c "says ls1 w1"] s fr1 by (simp_all add: world_simps)
  obtain ls where dl: "download_and_install en ?p ?c ?v comps (says ls w2) = (Inr r, w')"
    using d assms(2) by (auto simp: report_and_install_def Let_def)
  show ?thesis
    using that[of registry comps "says ls w2"] f1 s1 fr2 dl ic by (simp add: world_simps)
qed


subsection \<open>Registry validation\<close>








subsection \<open>The profile tables of the Node and shell installers\<close>

lemma PROFILE_MAP_own:
  "PROFILE_MAP_get name = Own v \<Longrightarrow>
     (name, v) \<in> {(''essential'', ''core''), (''standard'', ''core''), (''extended'', ''full''),
                  (''specialized'', ''full''), (''all'', ''full''), (''core'', ''core''), (''full'', ''full'')}"
  by (auto simp: PROFILE_MAP_get_def PROFILE_MAP_def split: option.splits if_splits)

lemma sh_table:
  "get_categories ''essential'' = Some core_list" "get_categories ''standard'' = Some core_list"
  "get_categories ''core'' = Some core_list" "get_categories ''extended'' = Some full_list"
  "get_categories ''all'' = Some full_list" "get_categories ''full'' = Some full_list"
  "get_categories ''specialized'' = None"
  by (simp_all add: get_categories_def core_list_def full_list_def)

lemma js_table:
  "js_categories (js_defaults\<lparr>profileName := ''essential''\<rparr>) = Some (''essential'', core_list)"
  "js_categories (js_defaults\<lparr>profileName := ''standard''\<rparr>) = Some (''standard'', core_list)"
  "js_categories (js_defaults\<lparr>profileName := ''core''\<rparr>) = Some (''core'', core_list)"
  "js_categories (js_defaults\<lparr>profileName := ''extended''\<rparr>) = Some (''extended'', full_list)"
  "js_categories (js_defaults\<lparr>profileName := ''all''\<rparr>) = Some (''all'', full_list)"
  "js_categories (js_defaults\<lparr>profileName := ''full''\<rparr>) = Some (''full'', full_list)"
  "js_categories (js_defaults\<lparr>profileName := ''specialized''\<rparr>) = Some (''specialized'', full_list)"
  by (simp_all add: js_categories_def js_defaults_def PROFILE_MAP_get_def PROFILE_MAP_def PROFILES_def
        core_list_def full_list_def)

lemma js_accepts_table:
  "js_accepts ''essential''" "js_accepts ''standard''" "js_accepts ''core''" "js_accepts ''extended''"
  "js_accepts ''all''" "js_accepts ''full''" "js_accepts ''specialized''"
  by (simp_all add: js_accepts_def PROFILE_MAP_get_def PROFILE_MAP_def)

lemma get_categories_names:
  "get_categories name = Some cs \<Longrightarrow> name \<noteq> [] \<Longrightarrow>
     name \<in> {''essential'', ''standard'', ''core'', ''extended'', ''all'', ''full''}"
  by (auto simp: get_categories_def Let_def split: if_splits)

lemma sh_js_agree_1:
  assumes "get_categories name = Some cs" "name \<noteq> []"
  shows "js_accepts name \<and> js_categories (js_defaults\<lparr>profileName := name\<rparr>) = Some (name, cs)"
proof -
  have "name \<in> {''essential'', ''standard'', ''core'', ''extended'', ''all'', ''full''}"
    using assms by (rule get_categories_names)
  then show ?thesis
    using assms(1) by (elim insertE emptyE) (simp_all add: sh_table js_table js_accepts_table)
qed

lemma sh_js_agree_2:
  assumes "js_accepts name" "js_categories (js_defaults\<lparr>profileName := name\<rparr>) = Some (name, cs)"
    "name \<noteq> ''specialized''"
  shows "get_categories name = Some cs"
proof -
  obtain v where v: "PROFILE_MAP_get name = Own v"
    using assms(1,2) by (cases "PROFILE_MAP_get name") (auto simp: js_accepts_def js_categories_def js_defaults_def)
  have "name \<in> {''essential'', ''standard'', ''extended'', ''specialized'', ''all'', ''core'', ''full''}"
    using PROFILE_MAP_own[OF v] by (elim insertE emptyE) simp_all
  then show ?thesis
    using assms(2,3) by (elim insertE emptyE) (simp_all add: sh_table js_table)
qed

subsection \<open>The sample run\<close>

lemma demo_run_success: "success (fst (installContext demo_env demo_options demo_world))"
  by code_simp

lemma demo_run_real: "\<not> dflt False (dryRun demo_options)"
  by code_simp

lemma demo_run_gate:
  "\<not> (existsSync demo_world (MANIFEST_FILE demo_env) \<and> \<not> dflt False (force demo_options))"
  by code_simp

subsection \<open>Runs that find a manifest, and dry runs\<close>

lemma installContext_short_circuit_frame:
  assumes "existsSync w (MANIFEST_FILE en)" "\<not> dflt False (force options)"
  shows "fsys (snd (installContext en options w)) = fsys w \<and> calls (snd (installContext en options w)) = calls w"
  using assms
  by (simp add: installContext_def installContext_try_def Let_def world_simps
           split: sum.splits prod.splits)

lemma installContext_short_circuit_result:
  assumes "existsSync w (MANIFEST_FILE en)" "\<not> dflt False (force options)"
    "checkGitAvailable en" "node_at (fsys w) (MANIFEST_FILE en) = Some (File (Json m))"
  shows "fst (installContext en options w) = \<lparr> success = True, manifest = m, errors = None \<rparr>"
    and "console (snd (installContext en options w))
          = console w @ [(L_warning, [Str ''Context already installed. Use --force to reinstall.''])]"
  using assms
  by (simp_all add: installContext_def installContext_try_def Let_def world_simps readFileSync_def
        JSON_parse_def say_def)

lemma js_main_short_circuit:
  assumes p: "fst (js_parse args js_defaults w) = Inr fl" and nf: "\<not> forced fl"
    and ex: "existsSync w (installRoot en (isGlobal fl) @ [''.context-manifest.json''])"
  shows "fsys (snd (js_main en args w)) = fsys w" "calls (snd (js_main en args w)) = calls w"
    "js_categories fl \<noteq> None \<Longrightarrow> fst (js_main en args w) = 0"
    "js_categories fl \<noteq> None \<Longrightarrow> js_already_installed (isGlobal fl) \<in> set (console (snd (js_main en args w)))"
  using js_run_short_circuit[OF ex nf] js_main_parsed[OF p, of en]
  by (simp_all add: js_already_installed_def)

lemma js_main_dry:
  assumes "''--dry-run'' \<in> set args"
  shows "fsys (snd (js_main en args w)) = fsys w \<and> calls (snd (js_main en args w)) = calls w"
proof (cases "js_parse args js_defaults w")
  case (Pair a w')
  show ?thesis
  proof (cases a)
    case (Inl code)
    with Pair show ?thesis using js_main_unparsed[of args w code en] by simp
  next
    case (Inr fl)
    with Pair have "dry fl" using js_parse_dry[of args js_defaults w fl w'] assms by simp
    moreover have "js_main en args w = js_run en fl w"
      using js_main_parsed[of args w fl en] Pair Inr by simp
    ultimately show ?thesis using js_run_dry[of fl en w] by simp
  qed
qed

subsection \<open>The pointer file after an install\<close>




section \<open>The claims\<close>

text \<open>
  Claim C1. For every registry and any two profiles \<open>a\<close> and \<open>b\<close> where \<open>a\<close> precedes
  \<open>b\<close> in the ordering essential, standard, extended, specialized, all, every component
  returned by \<open>filterContextByProfile\<close> for \<open>a\<close> is also returned for \<open>b\<close>; and the
  result for \<open>all\<close> contains the result of every profile. Neither call raises.
\<close>

theorem C1_profile_monotone:
  "(precedes a b \<longrightarrow>
      (\<exists>xs ys. filterContextByProfile r a = Inr xs \<and> filterContextByProfile r b = Inr ys
         \<and> set xs \<subseteq> set ys))
   \<and> (\<exists>xs ys. filterContextByProfile r a = Inr xs \<and> filterContextByProfile r P_all = Inr ys
         \<and> set xs \<subseteq> set ys)"
  by (cases a; cases b)
     (auto simp add: precedes_def filterContextByProfile_def profileCategories_def Let_def)

theorem C1_profile_monotone_witness:
  "precedes P_essential P_extended
   \<and> (\<exists>xs ys. filterContextByProfile demo_registry P_essential = Inr xs
         \<and> filterContextByProfile demo_registry P_extended = Inr ys \<and> set xs \<subseteq> set ys)"
  using C1_profile_monotone[of P_essential P_extended demo_registry]
  by (simp add: precedes_def)

text \<open>
  Claim C2. Every install that creates a scratch directory removes it before it returns, on
  the success path and on every failure path. In \<open>installContext\<close> the call of \<open>cleanup\<close>
  stands on the success path only: neither the handler of \<open>sparseClone\<close> nor the handler of
  \<open>installContext\<close> removes the directory. On the sample run the scratch directory does not
  exist before the call and is gone after a successful install; but when
  \<open>git sparse-checkout set\<close> fails, when the cloned tree has no \<open>.opencode/context\<close>, or
  when the copy fails, the call returns a failure and the scratch directory is still there.
\<close>

theorem C2_scratch_left_behind:
  "\<not> existsSync demo_world (tempDir demo_env)
   \<and> success (fst (installContext demo_env demo_options demo_world))
   \<and> \<not> existsSync (snd (installContext demo_env demo_options demo_world)) (tempDir demo_env)
   \<and> \<not> success (fst (installContext (demo_env\<lparr>sparse_ok := (\<lambda>ps. False)\<rparr>) demo_options demo_world))
   \<and> existsSync (snd (installContext (demo_env\<lparr>sparse_ok := (\<lambda>ps. False)\<rparr>) demo_options demo_world))
        (tempDir demo_env)
   \<and> \<not> success (fst (installContext (demo_env\<lparr>sparse_tree := (\<lambda>ps. [])\<rparr>) demo_options demo_world))
   \<and> existsSync (snd (installContext (demo_env\<lparr>sparse_tree := (\<lambda>ps. [])\<rparr>) demo_options demo_world))
        (tempDir demo_env)
   \<and> \<not> success (fst (installContext (demo_env\<lparr>cp_ok := False\<rparr>) demo_options demo_world))
   \<and> existsSync (snd (installContext (demo_env\<lparr>cp_ok := False\<rparr>) demo_options demo_world))
        (tempDir demo_env)"
  by code_simp

text \<open>
  Claim C3, as amended. When a manifest exists at the scope root and \<open>force\<close> is not set,
  the install performs no registry fetch, no transport call and no write: file system and
  call log are those before the call. The TypeScript installer returns the success result
  holding the manifest it read, after the one warning, provided git is available and the
  manifest file holds a JSON document; the Node installer exits with 0 after its warning,
  provided its arguments parse and name a profile of its table.
\<close>

theorem C3_short_circuit:
  "(existsSync w (MANIFEST_FILE en) \<and> \<not> dflt False (force options) \<longrightarrow>
      fsys (snd (installContext en options w)) = fsys w
      \<and> calls (snd (installContext en options w)) = calls w
      \<and> (checkGitAvailable en \<and> node_at (fsys w) (MANIFEST_FILE en) = Some (File (Json m)) \<longrightarrow>
            fst (installContext en options w) = \<lparr> success = True, manifest = m, errors = None \<rparr>
            \<and> console (snd (installContext en options w)) = console w @ [already_installed]))
   \<and> (fst (js_parse args js_defaults w) = Inr fl \<and> \<not> forced fl
        \<and> existsSync w (installRoot en (isGlobal fl) @ [''.context-manifest.json'']) \<longrightarrow>
      fsys (snd (js_main en args w)) = fsys w
      \<and> calls (snd (js_main en args w)) = calls w
      \<and> (js_categories fl \<noteq> None \<longrightarrow>
            fst (js_main en args w) = 0
            \<and> js_already_installed (isGlobal fl) \<in> set (console (snd (js_main en args w)))))"
proof (intro conjI impI)
  assume a: "existsSync w (MANIFEST_FILE en) \<and> \<not> dflt False (force options)"
  then show "fsys (snd (installContext en options w)) = fsys w"
    and "calls (snd (installContext en options w)) = calls w"
    using installContext_short_circuit_frame[of w en options] by simp_all
  assume "checkGitAvailable en \<and> node_at (fsys w) (MANIFEST_FILE en) = Some (File (Json m))"
  with a show "fst (installContext en options w) = \<lparr> success = True, manifest = m, errors = None \<rparr>"
    and "console (snd (installContext en options w)) = console w @ [already_installed]"
    using installContext_short_circuit_result[of w en options m] by (simp_all add: already_installed_def)
next
  assume a: "fst (js_parse args js_defaults w) = Inr fl \<and> \<not> forced fl
        \<and> existsSync w (installRoot en (isGlobal fl) @ [''.context-manifest.json''])"
  then show "fsys (snd (js_main en args w)) = fsys w" and "calls (snd (js_main en args w)) = calls w"
    using js_main_short_circuit(1,2)[of args w fl en] by simp_all
  assume "js_categories fl \<noteq> None"
  with a show "fst (js_main en args w) = 0"
    and "js_already_installed (isGlobal fl) \<in> set (console (snd (js_main en args w)))"
    using js_main_short_circuit(3,4)[of args w fl en] by simp_all
qed

theorem C3_short_circuit_witness:
  "existsSync installed_world (MANIFEST_FILE demo_env)
   \<and> fsys (snd (installContext demo_env demo_options installed_world)) = fsys installed_world
   \<and> calls (snd (installContext demo_env demo_options installed_world)) = calls installed_world
   \<and> fst (installContext demo_env demo_options installed_world)
       = \<lparr> success = True, manifest = make_manifest demo_env P_essential [] ''0123abc'' [], errors = None \<rparr>
   \<and> console (snd (installContext demo_env demo_options installed_world))
       = console installed_world @ [already_installed]
   \<and> fsys (snd (js_main demo_env [''--profile=extended''] installed_world)) = fsys installed_world
   \<and> calls (snd (js_main demo_env [''--profile=extended''] installed_world)) = calls installed_world
   \<and> fst (js_main demo_env [''--profile=extended''] installed_world) = 0
   \<and> js_already_installed False \<in> set (console (snd (js_main demo_env [''--profile=extended''] installed_world)))"
proof -
  have a: "existsSync installed_world (MANIFEST_FILE demo_env)" by code_simp
  have b: "\<not> dflt False (force demo_options)" by code_simp
  have c: "checkGitAvailable demo_env" by code_simp
  have d: "node_at (fsys installed_world) (MANIFEST_FILE demo_env)
             = Some (File (Json (make_manifest demo_env P_essential [] ''0123abc'' [])))"
    by (simp add: installed_world_def MANIFEST_FILE_def PLUGIN_ROOT_def demo_env_def node_at_def)
  have e: "fst (js_parse [''--profile=extended''] js_defaults installed_world)
             = Inr (js_defaults\<lparr>profileName := ''extended''\<rparr>)"
    by code_simp
  have f: "\<not> forced (js_defaults\<lparr>profileName := ''extended''\<rparr>)" by code_simp
  have g: "isGlobal (js_defaults\<lparr>profileName := ''extended''\<rparr>) = False" by code_simp
  have h: "existsSync installed_world (installRoot demo_env False @ [''.context-manifest.json''])"
    by code_simp
  have i: "js_categories (js_defaults\<lparr>profileName := ''extended''\<rparr>) \<noteq> None" by code_simp
  from C3_short_circuit[of installed_world demo_env demo_options
      "make_manifest demo_env P_essential [] ''0123abc'' []"
      "[''--profile=extended'']" "js_defaults\<lparr>profileName := ''extended''\<rparr>"]
    a b c d e f g h i
  show ?thesis by simp
qed

text \<open>
  Claim C3 as stated fails: \<open>installContext\<close> tests for git before it looks for the manifest,
  so with a manifest present, \<open>force\<close> unset and git unavailable it returns a failure.
\<close>

theorem C3_counterexample:
  "existsSync installed_world (MANIFEST_FILE demo_env)
   \<and> dflt False (force demo_options) = False
   \<and> success (fst (installContext (demo_env\<lparr>git_available := False\<rparr>) demo_options installed_world)) = False"
  by code_simp

text \<open>
  Claim C4. An install with \<open>dryRun\<close> set leaves the file system as it was and makes no
  call but (at most) the registry fetch; whenever the real install of the same options
  succeeds without being short-circuited by a manifest, the dry run succeeds too and
  reports the same component list in its manifest. The Node installer given \<open>--dry-run\<close>
  leaves file system and call log untouched, and the categories it selects do not depend on
  the flag.
\<close>

theorem C4_dry_run:
  "fsys (snd (installContext en (options\<lparr>dryRun := Some True\<rparr>) w)) = fsys w
   \<and> (calls (snd (installContext en (options\<lparr>dryRun := Some True\<rparr>) w)) = calls w
       \<or> calls (snd (installContext en (options\<lparr>dryRun := Some True\<rparr>) w)) = calls w @ [Fetch registry_url])
   \<and> (success (fst (installContext en (options\<lparr>dryRun := Some False\<rparr>) w))
        \<and> \<not> (existsSync w (MANIFEST_FILE en) \<and> \<not> dflt False (force options))
      \<longrightarrow> success (fst (installContext en (options\<lparr>dryRun := Some True\<rparr>) w))
          \<and> manifest_context (manifest (fst (installContext en (options\<lparr>dryRun := Some True\<rparr>) w)))
            = manifest_context (manifest (fst (installContext en (options\<lparr>dryRun := Some False\<rparr>) w))))
   \<and> (''--dry-run'' \<in> set args
      \<longrightarrow> fsys (snd (js_main en args w)) = fsys w \<and> calls (snd (js_main en args w)) = calls w)
   \<and> js_categories (fl\<lparr>dry := True\<rparr>) = js_categories (fl\<lparr>dry := False\<rparr>)"
proof -
  have d: "dflt False (dryRun (options\<lparr>dryRun := Some True\<rparr>))" by (simp add: dflt_def)
  show ?thesis
    using installContext_dry_frame[OF d, of en w] installContext_dry_same_selection[of en options w]
      js_main_dry[of args en w] js_categories_dry[where fl=fl and b=True] js_categories_dry[where fl=fl and b=False]
    by simp
qed

theorem C4_dry_run_witness:
  "success (fst (installContext demo_env (demo_options\<lparr>dryRun := Some False\<rparr>) demo_world))
   \<and> success (fst (installContext demo_env (demo_options\<lparr>dryRun := Some True\<rparr>) demo_world))
   \<and> manifest_context (manifest (fst (installContext demo_env (demo_options\<lparr>dryRun := Some True\<rparr>) demo_world)))
       = manifest_context (manifest (fst (installContext demo_env (demo_options\<lparr>dryRun := Some False\<rparr>) demo_world)))
   \<and> fsys (snd (installContext demo_env (demo_options\<lparr>dryRun := Some True\<rparr>) demo_world)) = fsys demo_world
   \<and> fsys (snd (js_main demo_env [''--dry-run''] demo_world)) = fsys demo_world
   \<and> calls (snd (js_main demo_env [''--dry-run''] demo_world)) = calls demo_world"
proof -
  have a: "success (fst (installContext demo_env (demo_options\<lparr>dryRun := Some False\<rparr>) demo_world))"
    by code_simp
  have b: "\<not> (existsSync demo_world (MANIFEST_FILE demo_env) \<and> \<not> dflt False (force demo_options))"
    by code_simp
  have c: "''--dry-run'' \<in> set [''--dry-run'']" by simp
  from C4_dry_run[of demo_env demo_options demo_world "[''--dry-run'']" js_defaults] a b c
  show ?thesis by blast
qed




text \<open>
  Claim C6. Whenever \<open>.oac.json\<close> exists at the project root and the directory named by its
  \<open>context.root\<close> holds \<open>navigation.md\<close>, discovery returns that root with source
  \<open>.oac.json\<close> and asks for no pointer to be written, whatever the candidates of the
  discovery chain hold.
\<close>

theorem C6_pointer_precedence:
  assumes "existsSync w (project_oac_json en)" "pointer_root en w = Some r"
    "navigation_md w (expand_root en r)"
  shows "context_root (discover en w) = Some r \<and> source (discover en w) = Oac_json
         \<and> \<not> write_oac_json (discover en w)"
  using assms by (simp add: discover_def)

theorem C6_pointer_precedence_witness:
  "existsSync pointed_world (project_oac_json demo_env)
   \<and> pointer_root demo_env pointed_world = Some ''docs/standards''
   \<and> navigation_md pointed_world (expand_root demo_env ''docs/standards'')
   \<and> navigation_md pointed_world (cwd demo_env @ [''.claude'', ''context''])
   \<and> context_root (discover demo_env pointed_world) = Some ''docs/standards''
   \<and> source (discover demo_env pointed_world) = Oac_json
   \<and> \<not> write_oac_json (discover demo_env pointed_world)"
proof -
  have a: "existsSync pointed_world (project_oac_json demo_env)" by code_simp
  have b: "pointer_root demo_env pointed_world = Some ''docs/standards''" by code_simp
  have c: "navigation_md pointed_world (expand_root demo_env ''docs/standards'')" by code_simp
  have d: "navigation_md pointed_world (cwd demo_env @ [''.claude'', ''context''])" by code_simp
  from C6_pointer_precedence[OF a b c] a b c d show ?thesis by simp
qed



text \<open>
  Claim C8. For every registry and every explicit id list, \<open>filterContextByIds\<close> returns
  exactly the registry's context components whose id is a member of the list, in registry
  order; ids of the list that match no component are dropped without an error: removing
  them from the list leaves the result as it is. (The function has no failing path: its
  result is a plain list.)
\<close>

theorem C8_filter_by_ids:
  "filterContextByIds r ids
     = filter (\<lambda>c. c_id c \<in> set ids) (or_empty (contexts (r_components r)))
   \<and> filterContextByIds r ids
     = filterContextByIds r (filter (\<lambda>i. i \<in> c_id ` set (or_empty (contexts (r_components r)))) ids)"
proof -
  have "filter (\<lambda>c. c_id c \<in> set ids) cs
          = filter (\<lambda>c. c_id c \<in> set (filter (\<lambda>i. i \<in> c_id ` set cs) ids)) cs" for cs
    by (rule filter_cong) auto
  then show ?thesis by (simp add: filterContextByIds_def)
qed

text \<open>The scenario of the specification: one resolvable id and one that is not.\<close>

lemma filter_by_ids_scenario:
  "filterContextByIds demo_registry [''core-standards'', ''does-not-exist'']
     = [demo_component ''core-standards'' ''Core standards'' ''.opencode/context/core/standards/code.md'' ''core'']"
  by (simp add: filterContextByIds_def demo_registry_def or_empty_def demo_component_def)

text \<open>
  Claim C9, as amended. The shell and the Node installer select the same categories for
  every profile name both accept: whatever non-empty name \<open>get_categories\<close> accepts,
  \<open>PROFILE_MAP\<close> accepts with the same category list, and conversely for every name but
  \<open>specialized\<close>, which only the Node table knows.
\<close>

theorem C9_shell_node_agree:
  "(get_categories name = Some cs \<and> name \<noteq> []
      \<longrightarrow> js_accepts name \<and> js_categories (js_defaults\<lparr>profileName := name\<rparr>) = Some (name, cs))
   \<and> (js_accepts name \<and> js_categories (js_defaults\<lparr>profileName := name\<rparr>) = Some (name, cs)
        \<and> name \<noteq> ''specialized''
      \<longrightarrow> get_categories name = Some cs)"
  using sh_js_agree_1[of name cs] sh_js_agree_2[of name cs] by blast

theorem C9_shell_node_agree_witness:
  "get_categories ''extended'' = Some full_list \<and> js_accepts ''extended''
   \<and> js_categories (js_defaults\<lparr>profileName := ''extended''\<rparr>) = Some (''extended'', full_list)"
  using C9_shell_node_agree[of "''extended''" full_list]
  by (simp add: sh_table)

text \<open>
  Claim C9 as stated fails: for the profile \<open>essential\<close>, accepted by all three installers,
  \<open>filterContextByProfile\<close> allows the categories \<open>essential\<close> and \<open>core\<close>, while the Node
  and shell installers select \<open>core\<close> and \<open>openagents-repo\<close>.
\<close>

theorem C9_counterexample:
  "map_of profileCategories P_essential = Some [''essential'', ''core'']
   \<and> js_categories (js_defaults\<lparr>profileName := ''essential''\<rparr>) = Some (''essential'', [''core'', ''openagents-repo''])
   \<and> get_categories ''essential'' = Some [''core'', ''openagents-repo'']
   \<and> set [''essential'', ''core''] \<noteq> set [''core'', ''openagents-repo'']"
proof -
  have "''essential'' \<in> set [''essential'', ''core'']" "''essential'' \<notin> set [''core'', ''openagents-repo'']"
    by simp_all
  then have "set [''essential'', ''core''] \<noteq> set [''core'', ''openagents-repo'']"
    by metis
  then show ?thesis
    by (simp add: profileCategories_def js_categories_def js_defaults_def PROFILE_MAP_get_def PROFILE_MAP_def
          PROFILES_def get_categories_def)
qed

text \<open>
  Claim C10. For every component list, \<open>getUniquePaths\<close> returns exactly the distinct
  non-empty parent-directory prefixes of the components' paths; a component whose path has
  no \<open>/\<close> contributes nothing, so removing such components leaves the result as it is. In
  a successful real install the one \<open>git sparse-checkout set\<close> call is given
  \<open>getUniquePaths\<close> of the selected components, while the manifest lists every selected
  component.
\<close>

theorem C10_unique_paths:
  "set (getUniquePaths cs) = (\<lambda>c. parent_prefix (c_path c)) ` set cs - {[]}
   \<and> distinct (getUniquePaths cs)
   \<and> getUniquePaths (filter (\<lambda>c. CHR ''/'' \<in> set (c_path c)) cs) = getUniquePaths cs
   \<and> (success (fst (installContext en options w)) \<and> \<not> dflt False (dryRun options)
        \<and> \<not> (existsSync w (MANIFEST_FILE en) \<and> \<not> dflt False (force options))
      \<longrightarrow> (\<exists>registry comps.
             fst (fetchRegistry en github_main w) = Inr registry
           \<and> fst (select_components registry (dflt P_essential (profile options))
                     (dflt [] (customComponents options)) w) = Inr comps
           \<and> trace is_sparse_set (snd (installContext en options w))
               = trace is_sparse_set w @ [Git_sparse_set (tempDir en) (getUniquePaths comps)]
           \<and> manifest_context (manifest (fst (installContext en options w)))
               = Some (JArr (map (manifest_component en) comps))))"
proof (intro conjI impI)
  show "set (getUniquePaths cs) = (\<lambda>c. parent_prefix (c_path c)) ` set cs - {[]}"
    by (rule getUniquePaths_set)
  show "distinct (getUniquePaths cs)"
    by (rule getUniquePaths_distinct)
  show "getUniquePaths (filter (\<lambda>c. CHR ''/'' \<in> set (c_path c)) cs) = getUniquePaths cs"
    by (rule getUniquePaths_slashless)
next
  let ?p = "dflt P_essential (profile options)" and ?c = "dflt [] (customComponents options)"
  assume a: "success (fst (installContext en options w)) \<and> \<not> dflt False (dryRun options)
        \<and> \<not> (existsSync w (MANIFEST_FILE en) \<and> \<not> dflt False (force options))"
  then obtain registry comps w2 where
    f: "fst (fetchRegistry en github_main w) = Inr registry"
    and s: "fst (select_components registry ?p ?c w) = Inr comps"
    and c2: "calls w2 = calls w @ [Fetch registry_url]"
    and d: "download_and_install en ?p ?c (dflt False (verbose options)) comps w2
             = (Inr (fst (installContext en options w)), snd (installContext en options w))"
    using installContext_real_successE[of en options w] by metis
  have t: "trace is_sparse_set w2 = trace is_sparse_set w"
    by (simp add: trace_def c2 is_sparse_set_simps)
  from download_and_install_sparse[OF d] t f s
  show "\<exists>registry comps.
             fst (fetchRegistry en github_main w) = Inr registry
           \<and> fst (select_components registry ?p ?c w) = Inr comps
           \<and> trace is_sparse_set (snd (installContext en options w))
               = trace is_sparse_set w @ [Git_sparse_set (tempDir en) (getUniquePaths comps)]
           \<and> manifest_context (manifest (fst (installContext en options w)))
               = Some (JArr (map (manifest_component en) comps))"
    by auto
qed

theorem C10_unique_paths_witness:
  "success (fst (installContext demo_env demo_options demo_world))
   \<and> getUniquePaths [demo_component ''core-standards'' ''Core standards''
                        ''.opencode/context/core/standards/code.md'' ''core'',
                      demo_component ''readme'' ''Readme'' ''README.md'' ''essential'']
       = [''.opencode/context/core/standards'']
   \<and> (\<exists>registry comps.
             fst (fetchRegistry demo_env github_main demo_world) = Inr registry
           \<and> fst (select_components registry (dflt P_essential (profile demo_options))
                     (dflt [] (customComponents demo_options)) demo_world) = Inr comps
           \<and> trace is_sparse_set (snd (installContext demo_env demo_options demo_world))
               = trace is_sparse_set demo_world @ [Git_sparse_set (tempDir demo_env) (getUniquePaths comps)]
           \<and> manifest_context (manifest (fst (installContext demo_env demo_options demo_world)))
               = Some (JArr (map (manifest_component demo_env) comps)))"
proof -
  have g: "getUniquePaths [demo_component ''core-standards'' ''Core standards''
                        ''.opencode/context/core/standards/code.md'' ''core'',
                      demo_component ''readme'' ''Readme'' ''README.md'' ''essential'']
       = [''.opencode/context/core/standards'']"
    by code_simp
  from C10_unique_paths[of "[]" demo_env demo_options demo_world]
    demo_run_success demo_run_real demo_run_gate g
  show ?thesis by blast
qed

end
